theory Spec2Isabelle
  imports Main "HOL-Library.AList"
begin

section \<open>The taish client library: wire messages, errors and Python values\<close>

text \<open>
  The development embeds \<^verbatim>\<open>tools/taish/client/taish/__init__.py\<close>: the asynchronous
  client \<^verbatim>\<open>AsyncClient\<close>, the object model (\<^verbatim>\<open>TAIObject\<close>, \<^verbatim>\<open>Module\<close>, \<^verbatim>\<open>NetIf\<close>,
  \<^verbatim>\<open>HostIf\<close>) and the synchronous facade \<^verbatim>\<open>Client\<close>.

  The generated modules \<^verbatim>\<open>taish_pb2\<close> and \<^verbatim>\<open>taish_grpc\<close> are not part of the file.  The
  messages are modelled with exactly the fields the client reads or writes; identifiers
  that travel in unsigned wire fields (\<^verbatim>\<open>oid\<close>, \<^verbatim>\<open>attr_id\<close>, \<^verbatim>\<open>module_id\<close>, \<^verbatim>\<open>index\<close> of a
  listed interface) are natural numbers.
\<close>

datatype object_type = MODULE | NETIF | HOSTIF

text \<open>\<^verbatim>\<open>req.serialize_option\<close>: the fields \<^verbatim>\<open>human\<close>, \<^verbatim>\<open>value_only\<close>, \<^verbatim>\<open>json\<close>.\<close>

datatype serialize_option = SerializeOption (human: bool) (value_only: bool) (json: bool)

text \<open>\<^verbatim>\<open>taish_pb2.Attribute\<close>: \<^verbatim>\<open>attr_id\<close> and \<^verbatim>\<open>value\<close> (a fresh message holds 0 and the empty string).\<close>

type_synonym attribute = "nat \<times> string"

text \<open>The attribute descriptor \<^verbatim>\<open>res.metadata\<close>; the client reads \<^verbatim>\<open>attr_id\<close> and \<^verbatim>\<open>usage\<close>.\<close>

record metadata =
  attr_id :: nat
  name :: string
  usage :: string

text \<open>A listed interface (\<^verbatim>\<open>obj.netifs[i]\<close>, \<^verbatim>\<open>obj.hostifs[i]\<close>) and a listed module.\<close>

record interface_msg =
  index :: nat
  if_oid :: nat

record module_msg =
  location :: string
  present :: bool
  oid :: nat
  hostifs :: "interface_msg list"
  netifs :: "interface_msg list"

text \<open>
  Python values that callers pass as attribute values, value hints and indices, with
  \<^verbatim>\<open>str(v)\<close> and truthiness (\<^verbatim>\<open>if value:\<close>).
\<close>

datatype pyval = PNone | PInt int | PStr string

function str_nat :: "nat \<Rightarrow> string" where
  "str_nat n =
     (if n < 10 then [''0123456789'' ! n]
      else str_nat (n div 10) @ [''0123456789'' ! (n mod 10)])"
  by pat_completeness auto
termination
  by (relation "measure id") auto

declare str_nat.simps [simp del]

definition str_int :: "int \<Rightarrow> string" where
  "str_int i = (if i < 0 then CHR ''-'' # str_nat (nat (- i)) else str_nat (nat i))"

fun str :: "pyval \<Rightarrow> string" where
  "str PNone = ''None''"
| "str (PInt i) = str_int i"
| "str (PStr s) = s"

fun truthy :: "pyval \<Rightarrow> bool" where
  "truthy PNone = False"
| "truthy (PInt i) = (i \<noteq> 0)"
| "truthy (PStr s) = (s \<noteq> [])"

text \<open>
  An attribute reference is told apart by \<^verbatim>\<open>type(attr) == int\<close>, \<^verbatim>\<open>type(attr) == str\<close>, and
  otherwise taken to be a descriptor (\<^verbatim>\<open>attr.attr_id\<close>).
\<close>

datatype attr_ref = AttrInt nat | AttrStr string | AttrMeta metadata

text \<open>
  Exceptions.  \<^verbatim>\<open>TAIException(code, msg)\<close> is the library's own; \<^verbatim>\<open>PyException msg\<close> is a
  plain \<^verbatim>\<open>Exception(msg)\<close>; the others are the interpreter's, raised by an unbound local
  variable, an index out of range, a missing dictionary key, a value of the wrong type and
  a missing attribute.
\<close>

datatype error =
    TAIException int string
  | PyException string
  | UnboundLocalError string
  | IndexError
  | KeyError string
  | TypeError string
  | AttributeError string

section \<open>The remote stub and the observable world\<close>

datatype rpc =
    ListModuleRPC | GetAttributeMetadataRPC | CreateRPC
  | SetAttributeRPC | GetAttributeRPC | MonitorRPC

text \<open>
  Requests, with the fields the client sets.  A metadata request carries both \<^verbatim>\<open>attr_id\<close>
  and \<^verbatim>\<open>attr_name\<close>; the one that is not set keeps its default (0, the empty string).
\<close>

datatype request =
    ListModuleRequest
  | GetAttributeMetadataRequest object_type nat string nat string serialize_option
  | CreateRequest object_type nat "attribute list" serialize_option
  | SetAttributeRequest nat "attribute list" serialize_option
  | GetAttributeRequest nat "attribute list" serialize_option
  | MonitorRequest nat nat serialize_option

text \<open>
  The trailing metadata of a stream, read by \<^verbatim>\<open>check_metadata\<close>: the entries
  \<^verbatim>\<open>tai-status-code\<close> (already read as a number) and \<^verbatim>\<open>tai-status-msg\<close>, each possibly
  absent.
\<close>

type_synonym trailing = "int option \<times> string option"

text \<open>
  The remote service is not part of the client.  It is a parameter: a state \<open>'r\<close> of its
  own and, for each method of \<^verbatim>\<open>self.stub\<close>, the answer it gives to a request in a state
  together with its next state.  \<^verbatim>\<open>Monitor_recv\<close> is one \<^verbatim>\<open>recv_message\<close> on the open
  notification stream: the next message, \<open>None\<close> when the stream has ended, or the error
  with which it breaks.
\<close>

record 'r stub =
  ListModule :: "'r \<Rightarrow> module_msg list \<times> 'r"
  GetAttributeMetadata :: "request \<Rightarrow> 'r \<Rightarrow> (metadata \<times> trailing) \<times> 'r"
  Create :: "request \<Rightarrow> 'r \<Rightarrow> (nat \<times> trailing) \<times> 'r"
  SetAttribute :: "request \<Rightarrow> 'r \<Rightarrow> trailing \<times> 'r"
  GetAttribute :: "request \<Rightarrow> 'r \<Rightarrow> (attribute list \<times> trailing) \<times> 'r"
  Monitor :: "request \<Rightarrow> 'r \<Rightarrow> 'r"
  Monitor_recv :: "'r \<Rightarrow> (error + string option) \<times> 'r"

text \<open>
  Every call on the stub is logged: a unary call, the opening and the closing of a stream
  (\<^verbatim>\<open>async with ... .open() as stream\<close>), \<^verbatim>\<open>send_message\<close>, \<^verbatim>\<open>recv_message\<close>,
  \<^verbatim>\<open>recv_trailing_metadata\<close>, and each invocation of a monitor callback.
\<close>

datatype event =
    Unary request
  | Open rpc
  | Send request
  | Recv rpc
  | RecvTrailing rpc
  | Close rpc
  | Callback "string option"

text \<open>
  The world a client acts on: the state of the remote service, the log of stub calls, and
  the store of the attribute lists that callers hold (a list is named by its position in
  the store, so that a list passed to a call and mutated by it stays the caller's list).
\<close>

record 'r world =
  remote :: 'r
  trace :: "event list"
  lists :: "(attr_ref \<times> pyval) list list"

definition log :: "event \<Rightarrow> 'r world \<Rightarrow> 'r world" where
  "log e w = w\<lparr>trace := trace w @ [e]\<rparr>"

definition set_default_serialize_option :: serialize_option where
  "set_default_serialize_option = SerializeOption True True False"

definition check_metadata :: "trailing \<Rightarrow> error + unit" where
  "check_metadata md =
     (let code = (case fst md of None \<Rightarrow> 0 | Some c \<Rightarrow> c)
      in if code \<noteq> 0
         then Inl (TAIException code (case snd md of None \<Rightarrow> [] | Some m \<Rightarrow> m))
         else Inr ())"

section \<open>The object model\<close>

text \<open>
  The owner of an object is a reference to a client instance: an \<^verbatim>\<open>AsyncClient\<close> or a
  facade \<^verbatim>\<open>Client\<close>, each named by a number.
\<close>

datatype client_ref = AsyncClientRef nat | ClientRef nat

text \<open>
  \<^verbatim>\<open>Module(client, obj)\<close>.  The field \<^verbatim>\<open>obj\<close> is the listed message when the object comes
  from \<^verbatim>\<open>list\<close> or \<^verbatim>\<open>get_module\<close>; \<^verbatim>\<open>create_netif\<close> and \<^verbatim>\<open>create_hostif\<close> store in it an
  entry of the dictionary that \<^verbatim>\<open>list\<close> returns, which is itself a \<^verbatim>\<open>Module\<close> object.
\<close>

datatype module_obj = Module client_ref module_rec
  and module_rec = ModuleMsg module_msg | ModuleObj module_obj

text \<open>
  \<^verbatim>\<open>NetIf(client, obj, module)\<close> and \<^verbatim>\<open>HostIf(client, obj, module)\<close>.  Here \<^verbatim>\<open>obj\<close> is
  \<^verbatim>\<open>module.obj.netifs[index]\<close>: a listed interface message, or an interface object when
  \<^verbatim>\<open>module.obj\<close> is a \<^verbatim>\<open>Module\<close> object.
\<close>

datatype interface_obj =
    NetIf client_ref interface_rec module_obj
  | HostIf client_ref interface_rec module_obj
  and interface_rec = InterfaceMsg interface_msg | InterfaceObj interface_obj

datatype taiobject = ModuleT module_obj | InterfaceT interface_obj

text \<open>The properties \<^verbatim>\<open>oid\<close>, \<^verbatim>\<open>location\<close>, \<^verbatim>\<open>present\<close>, \<^verbatim>\<open>index\<close>, each reading \<^verbatim>\<open>self.obj\<close>.\<close>

fun module_oid :: "module_obj \<Rightarrow> nat" and rec_oid :: "module_rec \<Rightarrow> nat" where
  "module_oid (Module c r) = rec_oid r"
| "rec_oid (ModuleMsg m) = oid m"
| "rec_oid (ModuleObj mo) = module_oid mo"

fun module_location :: "module_obj \<Rightarrow> string" and rec_location :: "module_rec \<Rightarrow> string" where
  "module_location (Module c r) = rec_location r"
| "rec_location (ModuleMsg m) = location m"
| "rec_location (ModuleObj mo) = module_location mo"

fun module_present :: "module_obj \<Rightarrow> bool" and rec_present :: "module_rec \<Rightarrow> bool" where
  "module_present (Module c r) = rec_present r"
| "rec_present (ModuleMsg m) = present m"
| "rec_present (ModuleObj mo) = module_present mo"

fun interface_oid :: "interface_obj \<Rightarrow> nat" and irec_oid :: "interface_rec \<Rightarrow> nat" where
  "interface_oid (NetIf c r p) = irec_oid r"
| "interface_oid (HostIf c r p) = irec_oid r"
| "irec_oid (InterfaceMsg i) = if_oid i"
| "irec_oid (InterfaceObj io) = interface_oid io"

fun interface_index :: "interface_obj \<Rightarrow> nat" and irec_index :: "interface_rec \<Rightarrow> nat" where
  "interface_index (NetIf c r p) = irec_index r"
| "interface_index (HostIf c r p) = irec_index r"
| "irec_index (InterfaceMsg i) = index i"
| "irec_index (InterfaceObj io) = interface_index io"


fun object_type_of :: "taiobject \<Rightarrow> object_type" where
  "object_type_of (ModuleT mo) = MODULE"
| "object_type_of (InterfaceT (NetIf c r p)) = NETIF"
| "object_type_of (InterfaceT (HostIf c r p)) = HOSTIF"

fun oid_of :: "taiobject \<Rightarrow> nat" where
  "oid_of (ModuleT mo) = module_oid mo"
| "oid_of (InterfaceT io) = interface_oid io"

text \<open>The assignment \<^verbatim>\<open>ret.client = self\<close>.\<close>

fun set_client :: "client_ref \<Rightarrow> taiobject \<Rightarrow> taiobject" where
  "set_client c' (ModuleT (Module c r)) = ModuleT (Module c' r)"
| "set_client c' (InterfaceT (NetIf c r p)) = InterfaceT (NetIf c' r p)"
| "set_client c' (InterfaceT (HostIf c r p)) = InterfaceT (HostIf c' r p)"

text \<open>\<^verbatim>\<open>xs[i]\<close> for a Python integer \<open>i\<close>; below zero it is read from the end of the list.\<close>

definition py_index :: "'a list \<Rightarrow> int \<Rightarrow> error + 'a" where
  "py_index xs i =
     (if 0 \<le> i \<and> i < int (length xs) then Inr (xs ! nat i)
      else if i < 0 \<and> - int (length xs) \<le> i then Inr (xs ! nat (int (length xs) + i))
      else Inl IndexError)"

text \<open>
  \<^verbatim>\<open>self.obj.netifs\<close> and \<^verbatim>\<open>self.obj.hostifs\<close>: the repeated field of a message, or the
  property of a \<^verbatim>\<open>Module\<close> object, \<^verbatim>\<open>[self.get_netif(i) for i in range(len(self.obj.netifs))]\<close>
  with \<^verbatim>\<open>get_netif(i) = NetIf(self.client, self.obj.netifs[i], self)\<close>.
\<close>

fun module_netifs :: "module_obj \<Rightarrow> interface_obj list"
  and rec_netifs :: "module_rec \<Rightarrow> interface_rec list" where
  "module_netifs (Module c r) = map (\<lambda>x. NetIf c x (Module c r)) (rec_netifs r)"
| "rec_netifs (ModuleMsg m) = map InterfaceMsg (netifs m)"
| "rec_netifs (ModuleObj mo) = map InterfaceObj (module_netifs mo)"

fun module_hostifs :: "module_obj \<Rightarrow> interface_obj list"
  and rec_hostifs :: "module_rec \<Rightarrow> interface_rec list" where
  "module_hostifs (Module c r) = map (\<lambda>x. HostIf c x (Module c r)) (rec_hostifs r)"
| "rec_hostifs (ModuleMsg m) = map InterfaceMsg (hostifs m)"
| "rec_hostifs (ModuleObj mo) = map InterfaceObj (module_hostifs mo)"

fun get_netif :: "module_obj \<Rightarrow> int \<Rightarrow> error + interface_obj" where
  "get_netif (Module c r) i =
     (case py_index (rec_netifs r) i of
        Inl e \<Rightarrow> Inl e
      | Inr x \<Rightarrow> Inr (NetIf c x (Module c r)))"

fun get_hostif :: "module_obj \<Rightarrow> int \<Rightarrow> error + interface_obj" where
  "get_hostif (Module c r) i =
     (case py_index (rec_hostifs r) i of
        Inl e \<Rightarrow> Inl e
      | Inr x \<Rightarrow> Inr (HostIf c x (Module c r)))"

section \<open>AsyncClient\<close>

text \<open>
  \<^verbatim>\<open>get_attribute_metadata(object_type, attr, oid=0, location="")\<close>.  The stream is opened
  first.  The request is filled in the order of the source: a location that is not a
  string cannot be stored in the request, and a reference that is neither a number nor a
  name raises \<^verbatim>\<open>Exception("invalid argument")\<close>.  The response payload is read before the
  status footer is checked, and is dropped when the footer carries an error.
\<close>

definition metadata_request ::
  "object_type \<Rightarrow> attr_ref \<Rightarrow> nat \<Rightarrow> pyval \<Rightarrow> error + request" where
  "metadata_request ot attr oid' loc =
     (case loc of
        PStr l \<Rightarrow>
          (case attr of
             AttrInt i \<Rightarrow>
               Inr (GetAttributeMetadataRequest ot oid' l i [] set_default_serialize_option)
           | AttrStr n \<Rightarrow>
               Inr (GetAttributeMetadataRequest ot oid' l 0 n set_default_serialize_option)
           | AttrMeta d \<Rightarrow> Inl (PyException ''invalid argument''))
      | PNone \<Rightarrow> Inl (TypeError ''location'')
      | PInt n \<Rightarrow> Inl (TypeError ''location''))"

definition get_attribute_metadata ::
  "'r stub \<Rightarrow> object_type \<Rightarrow> attr_ref \<Rightarrow> nat \<Rightarrow> pyval \<Rightarrow> 'r world
     \<Rightarrow> (error + metadata) \<times> 'r world" where
  "get_attribute_metadata stub ot attr oid' loc w =
     (let w1 = log (Open GetAttributeMetadataRPC) w in
      case metadata_request ot attr oid' loc of
        Inl e \<Rightarrow> (Inl e, log (Close GetAttributeMetadataRPC) w1)
      | Inr req \<Rightarrow>
          (let w2 = log (Send req) w1;
               res = GetAttributeMetadata stub req (remote w2);
               w3 = log (RecvTrailing GetAttributeMetadataRPC)
                      (log (Recv GetAttributeMetadataRPC) (w2\<lparr>remote := snd res\<rparr>));
               w4 = log (Close GetAttributeMetadataRPC) w3
           in (case check_metadata (snd (fst res)) of
                 Inl e \<Rightarrow> (Inl e, w4)
               | Inr u \<Rightarrow> (Inr (fst (fst res)), w4))))"

text \<open>
  \<^verbatim>\<open>list()\<close>: one unary call; the dictionary is built in the order of the listing, a later
  module replacing an earlier one at the same location.
\<close>

definition list :: "'r stub \<Rightarrow> nat \<Rightarrow> 'r world \<Rightarrow> (string \<times> module_obj) list \<times> 'r world" where
  "list stub self w =
     (let res = ListModule stub (remote w);
          w1 = log (Unary ListModuleRequest) (w\<lparr>remote := snd res\<rparr>)
      in (fold (\<lambda>m ret. AList.update (location m) (Module (AsyncClientRef self) (ModuleMsg m)) ret)
            (fst res) [], w1))"

text \<open>\<^verbatim>\<open>get_module(location)\<close>: the loop over the listing, then the call itself.\<close>

fun get_module_scan :: "nat \<Rightarrow> string \<Rightarrow> module_msg list \<Rightarrow> error + module_obj" where
  "get_module_scan self loc [] = Inl (TAIException (- 1) (''no module '' @ loc @ '' found''))"
| "get_module_scan self loc (m # ms) =
     (if location m \<noteq> loc then get_module_scan self loc ms
      else if \<not> present m then Inl (TAIException (- 1) (''module '' @ loc @ '' not present''))
      else if oid m = 0 then Inl (TAIException (- 1) (''module '' @ loc @ '' not created yet''))
      else Inr (Module (AsyncClientRef self) (ModuleMsg m)))"

definition get_module ::
  "'r stub \<Rightarrow> nat \<Rightarrow> string \<Rightarrow> 'r world \<Rightarrow> (error + module_obj) \<times> 'r world" where
  "get_module stub self loc w =
     (let res = ListModule stub (remote w);
          w1 = log (Unary ListModuleRequest) (w\<lparr>remote := snd res\<rparr>)
      in (get_module_scan self loc (fst res), w1))"

text \<open>
  \<^verbatim>\<open>get_multiple(object_type, oid, attributes, with_metadata=False, json=False)\<close>.  An
  entry is a reference, or a pair of a reference and a value hint.
\<close>

datatype get_entry = Plain attr_ref | Hinted attr_ref pyval

text \<open>
  One pass of the first loop, up to \<^verbatim>\<open>a = taish_pb2.Attribute()\<close>: it yields the \<^verbatim>\<open>attr_id\<close>
  and the new binding of the local variable \<^verbatim>\<open>meta\<close>.  The variables \<^verbatim>\<open>meta\<close> and \<^verbatim>\<open>a\<close> live
  for the whole call and are unbound (\<open>None\<close>) until first assigned.  In the descriptor
  branch a truthy hint is written to \<^verbatim>\<open>a\<close>, the attribute of the previous pass, which
  \<^verbatim>\<open>req.attributes.append\<close> has already copied into the request: the write fails when
  \<^verbatim>\<open>a\<close> is still unbound and is lost otherwise.
\<close>

definition get_multiple_resolve ::
  "'r stub \<Rightarrow> object_type \<Rightarrow> nat \<Rightarrow> bool \<Rightarrow> get_entry \<Rightarrow> metadata option \<Rightarrow> attribute option
     \<Rightarrow> 'r world \<Rightarrow> (error + nat \<times> metadata option) \<times> 'r world" where
  "get_multiple_resolve stub ot oid' with_metadata entry meta a w =
     (let v = (case entry of Plain r \<Rightarrow> PNone | Hinted r h \<Rightarrow> h);
          attr = (case entry of Plain r \<Rightarrow> r | Hinted r h \<Rightarrow> r)
      in case attr of
           AttrInt i \<Rightarrow>
             (if with_metadata
              then (case get_attribute_metadata stub ot (AttrInt i) oid' (PStr []) w of
                      (Inl e, w') \<Rightarrow> (Inl e, w')
                    | (Inr m, w') \<Rightarrow> (Inr (i, Some m), w'))
              else (Inr (i, meta), w))
         | AttrStr n \<Rightarrow>
             (case get_attribute_metadata stub ot (AttrStr n) oid' (PStr []) w of
                (Inl e, w') \<Rightarrow> (Inl e, w')
              | (Inr m, w') \<Rightarrow> (Inr (attr_id m, Some m), w'))
         | AttrMeta d \<Rightarrow>
             (if truthy v \<and> a = None then (Inl (UnboundLocalError ''a''), w)
              else (Inr (attr_id d, Some d), w)))"

fun get_multiple_loop ::
  "'r stub \<Rightarrow> object_type \<Rightarrow> nat \<Rightarrow> bool \<Rightarrow> get_entry list \<Rightarrow> attribute list
     \<Rightarrow> metadata option \<Rightarrow> attribute option \<Rightarrow> 'r world
     \<Rightarrow> (error + attribute list \<times> metadata option) \<times> 'r world" where
  "get_multiple_loop stub ot oid' with_metadata [] attrs meta a w = (Inr (attrs, meta), w)"
| "get_multiple_loop stub ot oid' with_metadata (entry # entries) attrs meta a w =
     (case get_multiple_resolve stub ot oid' with_metadata entry meta a w of
        (Inl e, w') \<Rightarrow> (Inl e, w')
      | (Inr (i, meta'), w') \<Rightarrow>
          get_multiple_loop stub ot oid' with_metadata entries (attrs @ [(i, [])]) meta'
            (Some (i, [])) w')"

text \<open>
  The second loop: every returned value, paired with the variable \<^verbatim>\<open>meta\<close> when metadata
  was requested.  A returned entry is the value, with the descriptor beside it or not.
\<close>

type_synonym get_result = "string \<times> metadata option"

definition get_multiple_collect ::
  "bool \<Rightarrow> metadata option \<Rightarrow> attribute list \<Rightarrow> error + get_result list" where
  "get_multiple_collect with_metadata meta res =
     (if with_metadata
      then (if res = [] then Inr []
            else (case meta of
                    None \<Rightarrow> Inl (UnboundLocalError ''meta'')
                  | Some m \<Rightarrow> Inr (map (\<lambda>attr. (snd attr, Some m)) res)))
      else Inr (map (\<lambda>attr. (snd attr, None)) res))"

definition get_multiple ::
  "'r stub \<Rightarrow> object_type \<Rightarrow> nat \<Rightarrow> get_entry list \<Rightarrow> bool \<Rightarrow> bool \<Rightarrow> 'r world
     \<Rightarrow> (error + get_result list) \<times> 'r world" where
  "get_multiple stub ot oid' attributes with_metadata json' w =
     (let w1 = log (Open GetAttributeRPC) w in
      case get_multiple_loop stub ot oid' with_metadata attributes [] None None w1 of
        (Inl e, w2) \<Rightarrow> (Inl e, log (Close GetAttributeRPC) w2)
      | (Inr (attrs, meta), w2) \<Rightarrow>
          (let req = GetAttributeRequest oid' attrs (SerializeOption True True json');
               w3 = log (Send req) w2;
               res = GetAttribute stub req (remote w3);
               w4 = log (RecvTrailing GetAttributeRPC)
                      (log (Recv GetAttributeRPC) (w3\<lparr>remote := snd res\<rparr>));
               w5 = log (Close GetAttributeRPC) w4
           in (case check_metadata (snd (fst res)) of
                 Inl e \<Rightarrow> (Inl e, w5)
               | Inr u \<Rightarrow> (get_multiple_collect with_metadata meta (fst (fst res)), w5))))"

text \<open>\<^verbatim>\<open>get(object_type, oid, attr, with_metadata=False, value=None, json=False)\<close>.\<close>

definition get ::
  "'r stub \<Rightarrow> object_type \<Rightarrow> nat \<Rightarrow> attr_ref \<Rightarrow> bool \<Rightarrow> pyval \<Rightarrow> bool \<Rightarrow> 'r world
     \<Rightarrow> (error + get_result) \<times> 'r world" where
  "get stub ot oid' attr with_metadata v json' w =
     (case get_multiple stub ot oid' [Hinted attr v] with_metadata json' w of
        (Inl e, w') \<Rightarrow> (Inl e, w')
      | (Inr vs, w') \<Rightarrow> (py_index vs 0, w'))"

text \<open>\<^verbatim>\<open>set_multiple(object_type, oid, attributes)\<close> and \<^verbatim>\<open>set(object_type, oid, attr_id, value)\<close>.\<close>

fun set_multiple_loop ::
  "'r stub \<Rightarrow> object_type \<Rightarrow> nat \<Rightarrow> (attr_ref \<times> pyval) list \<Rightarrow> attribute list \<Rightarrow> 'r world
     \<Rightarrow> (error + attribute list) \<times> 'r world" where
  "set_multiple_loop stub ot oid' [] attrs w = (Inr attrs, w)"
| "set_multiple_loop stub ot oid' (attr # attributes) attrs w =
     (case fst attr of
        AttrInt i \<Rightarrow> set_multiple_loop stub ot oid' attributes (attrs @ [(i, str (snd attr))]) w
      | AttrStr n \<Rightarrow>
          (case get_attribute_metadata stub ot (AttrStr n) oid' (PStr []) w of
             (Inl e, w') \<Rightarrow> (Inl e, w')
           | (Inr m, w') \<Rightarrow>
               set_multiple_loop stub ot oid' attributes (attrs @ [(attr_id m, str (snd attr))]) w')
      | AttrMeta d \<Rightarrow>
          set_multiple_loop stub ot oid' attributes (attrs @ [(attr_id d, str (snd attr))]) w)"

definition set_multiple ::
  "'r stub \<Rightarrow> object_type \<Rightarrow> nat \<Rightarrow> (attr_ref \<times> pyval) list \<Rightarrow> 'r world
     \<Rightarrow> (error + unit) \<times> 'r world" where
  "set_multiple stub ot oid' attributes w =
     (let w1 = log (Open SetAttributeRPC) w in
      case set_multiple_loop stub ot oid' attributes [] w1 of
        (Inl e, w2) \<Rightarrow> (Inl e, log (Close SetAttributeRPC) w2)
      | (Inr attrs, w2) \<Rightarrow>
          (let req = SetAttributeRequest oid' attrs set_default_serialize_option;
               w3 = log (Send req) w2;
               res = SetAttribute stub req (remote w3);
               w4 = log (RecvTrailing SetAttributeRPC)
                      (log (Recv SetAttributeRPC) (w3\<lparr>remote := snd res\<rparr>));
               w5 = log (Close SetAttributeRPC) w4
           in (check_metadata (fst res), w5)))"

definition set' ::
  "'r stub \<Rightarrow> object_type \<Rightarrow> nat \<Rightarrow> attr_ref \<Rightarrow> pyval \<Rightarrow> 'r world \<Rightarrow> (error + unit) \<times> 'r world" where
  "set' stub ot oid' attr v w = set_multiple stub ot oid' [(attr, v)] w"

text \<open>
  \<^verbatim>\<open>create(object_type, attrs, module_id=0)\<close>.  The object type is one of the constants of
  \<^verbatim>\<open>taish_pb2\<close> or a string; a string other than the three known names stays a string and
  cannot be stored in the request.
\<close>

datatype object_type_arg = OType object_type | OTypeName string

fun create_location :: "(attr_ref \<times> pyval) list \<Rightarrow> error + pyval" where
  "create_location [] = Inl (TAIException 14 ''mandatory-attribute-missing'')"
| "create_location (attr # attrs) =
     (if fst attr = AttrStr ''location'' then Inr (snd attr) else create_location attrs)"

definition create_object_type :: "object_type_arg \<Rightarrow> error + object_type" where
  "create_object_type ota =
     (case ota of
        OType t \<Rightarrow> Inr t
      | OTypeName s \<Rightarrow>
          (if s = ''module'' then Inr MODULE
           else if s = ''netif'' then Inr NETIF
           else if s = ''hostif'' then Inr HOSTIF
           else Inl (TypeError ''object_type'')))"

fun create_loop ::
  "'r stub \<Rightarrow> object_type \<Rightarrow> pyval \<Rightarrow> (attr_ref \<times> pyval) list \<Rightarrow> attribute list \<Rightarrow> 'r world
     \<Rightarrow> (error + attribute list) \<times> 'r world" where
  "create_loop stub ot loc [] req_attrs w = (Inr req_attrs, w)"
| "create_loop stub ot loc (attr # attrs) req_attrs w =
     (case get_attribute_metadata stub ot (fst attr) 0 loc w of
        (Inl e, w') \<Rightarrow> (Inl e, w')
      | (Inr m, w') \<Rightarrow>
          create_loop stub ot loc attrs (req_attrs @ [(attr_id m, str (snd attr))]) w')"

definition create_stream ::
  "'r stub \<Rightarrow> object_type_arg \<Rightarrow> (attr_ref \<times> pyval) list \<Rightarrow> nat \<Rightarrow> pyval \<Rightarrow> 'r world
     \<Rightarrow> (error + nat) \<times> 'r world" where
  "create_stream stub ota attrs module_id loc w =
     (let w1 = log (Open CreateRPC) w in
      case create_object_type ota of
        Inl e \<Rightarrow> (Inl e, log (Close CreateRPC) w1)
      | Inr ot \<Rightarrow>
          (case create_loop stub ot loc attrs [] w1 of
             (Inl e, w2) \<Rightarrow> (Inl e, log (Close CreateRPC) w2)
           | (Inr req_attrs, w2) \<Rightarrow>
               (let req = CreateRequest ot module_id req_attrs set_default_serialize_option;
                    w3 = log (Send req) w2;
                    res = Create stub req (remote w3);
                    w4 = log (RecvTrailing CreateRPC)
                           (log (Recv CreateRPC) (w3\<lparr>remote := snd res\<rparr>));
                    w5 = log (Close CreateRPC) w4
                in (case check_metadata (snd (fst res)) of
                      Inl e \<Rightarrow> (Inl e, w5)
                    | Inr u \<Rightarrow> (Inr (fst (fst res)), w5)))))"

definition create ::
  "'r stub \<Rightarrow> object_type_arg \<Rightarrow> (attr_ref \<times> pyval) list \<Rightarrow> nat \<Rightarrow> 'r world
     \<Rightarrow> (error + nat) \<times> 'r world" where
  "create stub ota attrs module_id w =
     (if module_id \<noteq> 0
      then (case get stub MODULE module_id (AttrStr ''location'') False PNone False w of
              (Inl e, w') \<Rightarrow> (Inl e, w')
            | (Inr v, w') \<Rightarrow> create_stream stub ota attrs module_id (PStr (fst v)) w')
      else (case create_location attrs of
              Inl e \<Rightarrow> (Inl e, w)
            | Inr loc \<Rightarrow> create_stream stub ota attrs module_id loc w))"

text \<open>
  The caller's attribute list.  \<^verbatim>\<open>attrs\<close> is \<open>None\<close> or a reference into the store of
  lists (a position below its length); \<^verbatim>\<open>if attrs is None: attrs = []\<close> allocates a new
  list at the end of the store, and \<^verbatim>\<open>attrs.append(entry)\<close> writes to the list that the
  reference names.
\<close>

definition attrs_or_new :: "nat option \<Rightarrow> 'r world \<Rightarrow> nat \<times> 'r world" where
  "attrs_or_new attrs w =
     (case attrs of
        None \<Rightarrow> (length (lists w), w\<lparr>lists := lists w @ [[]]\<rparr>)
      | Some a \<Rightarrow> (a, w))"

definition append_attr :: "nat \<Rightarrow> attr_ref \<times> pyval \<Rightarrow> 'r world \<Rightarrow> 'r world" where
  "append_attr a entry w = w\<lparr>lists := (lists w)[a := lists w ! a @ [entry]]\<rparr>"

text \<open>\<^verbatim>\<open>create_module(location, attrs=None)\<close>.\<close>

definition create_module ::
  "'r stub \<Rightarrow> nat \<Rightarrow> string \<Rightarrow> nat option \<Rightarrow> 'r world \<Rightarrow> (error + module_obj) \<times> 'r world" where
  "create_module stub self loc attrs w =
     (let aw = attrs_or_new attrs w;
          w1 = append_attr (fst aw) (AttrStr ''location'', PStr loc) (snd aw)
      in case create stub (OType MODULE) (lists w1 ! fst aw) 0 w1 of
           (Inl e, w2) \<Rightarrow> (Inl e, w2)
         | (Inr new_oid, w2) \<Rightarrow> get_module stub self loc w2)"

text \<open>
  \<^verbatim>\<open>monitor(obj, attr_id, callback, json=False)\<close>.  The loop \<^verbatim>\<open>while True\<close> ends only by
  an exception, so the model counts the messages it may still take: the outcome is
  \<open>Some e\<close> when the call has raised \<open>e\<close> and \<open>None\<close> when it is still receiving once
  the count is used up.  A callback is a function of the object, the descriptor and the
  message (\<open>None\<close> when \<^verbatim>\<open>recv_message\<close> yields nothing) that may raise; awaited or
  called directly, it is invoked alike.
\<close>

type_synonym callback = "taiobject \<Rightarrow> metadata \<Rightarrow> string option \<Rightarrow> error option"

fun format_attr :: "attr_ref \<Rightarrow> string" where
  "format_attr (AttrInt i) = str_nat i"
| "format_attr (AttrStr n) = n"
| "format_attr (AttrMeta d) = name d"

fun monitor_loop ::
  "'r stub \<Rightarrow> callback \<Rightarrow> taiobject \<Rightarrow> metadata \<Rightarrow> nat \<Rightarrow> 'r world \<Rightarrow> error option \<times> 'r world" where
  "monitor_loop stub callback obj m 0 w = (None, w)"
| "monitor_loop stub callback obj m (Suc k) w =
     (let res = Monitor_recv stub (remote w);
          w1 = log (Recv MonitorRPC) (w\<lparr>remote := snd res\<rparr>)
      in case fst res of
           Inl e \<Rightarrow> (Some e, w1)
         | Inr msg \<Rightarrow>
             (let w2 = log (Callback msg) w1
              in case callback obj m msg of
                   Some e \<Rightarrow> (Some e, w2)
                 | None \<Rightarrow> monitor_loop stub callback obj m k w2))"

definition monitor ::
  "'r stub \<Rightarrow> nat \<Rightarrow> taiobject \<Rightarrow> attr_ref \<Rightarrow> callback \<Rightarrow> bool \<Rightarrow> 'r world
     \<Rightarrow> error option \<times> 'r world" where
  "monitor stub k obj attr callback json' w =
     (let w1 = log (Open MonitorRPC) w in
      case get_attribute_metadata stub (object_type_of obj) attr (oid_of obj) (PStr []) w1 of
        (Inl e, w2) \<Rightarrow> (Some e, log (Close MonitorRPC) w2)
      | (Inr m, w2) \<Rightarrow>
          (if usage m \<noteq> ''<notification>''
           then (Some (PyException (''the type of attribute '' @ format_attr attr
                                      @ '' is not notification'')),
                 log (Close MonitorRPC) w2)
           else (let req = MonitorRequest (oid_of obj) (attr_id m) (SerializeOption True True json');
                     w3 = log (Send req) (w2\<lparr>remote := Monitor stub req (remote w2)\<rparr>)
                 in case monitor_loop stub callback obj m k w3 of
                      (None, w4) \<Rightarrow> (None, w4)
                    | (Some e, w4) \<Rightarrow> (Some e, log (Close MonitorRPC) w4))))"

section \<open>Module.create_netif and Module.create_hostif\<close>

text \<open>
  \<^verbatim>\<open>await self.client.create(...)\<close> and \<^verbatim>\<open>await self.client.list()\<close>.  On an \<^verbatim>\<open>AsyncClient\<close>
  the coroutine runs.  On a facade the call is carried out by the facade's worker on its
  own \<^verbatim>\<open>AsyncClient\<close> and returns the result or raises the error; the result is then not
  awaitable and \<^verbatim>\<open>await\<close> raises \<^verbatim>\<open>TypeError\<close>.
\<close>

definition await_client_create ::
  "'r stub \<Rightarrow> client_ref \<Rightarrow> object_type_arg \<Rightarrow> (attr_ref \<times> pyval) list \<Rightarrow> nat \<Rightarrow> 'r world
     \<Rightarrow> (error + nat) \<times> 'r world" where
  "await_client_create stub c ota attrs module_id w =
     (case c of
        AsyncClientRef n \<Rightarrow> create stub ota attrs module_id w
      | ClientRef n \<Rightarrow>
          (case create stub ota attrs module_id w of
             (Inl e, w') \<Rightarrow> (Inl e, w')
           | (Inr v, w') \<Rightarrow> (Inl (TypeError ''await''), w')))"

definition await_client_list ::
  "'r stub \<Rightarrow> client_ref \<Rightarrow> 'r world \<Rightarrow> (error + (string \<times> module_obj) list) \<times> 'r world" where
  "await_client_list stub c w =
     (case c of
        AsyncClientRef n \<Rightarrow> (Inr (fst (list stub n w)), snd (list stub n w))
      | ClientRef n \<Rightarrow> (Inl (TypeError ''await''), snd (list stub n w)))"

text \<open>
  \<^verbatim>\<open>create_netif(index=0, attrs=None)\<close>, with the object after the call (its \<^verbatim>\<open>obj\<close> is
  assigned) beside the result.  \<^verbatim>\<open>self.location\<close> is read after \<^verbatim>\<open>list\<close> has returned and
  before \<^verbatim>\<open>self.obj\<close> is assigned.
\<close>

definition refetch ::
  "'r stub \<Rightarrow> module_obj \<Rightarrow> 'r world \<Rightarrow> (error + module_obj) \<times> 'r world" where
  "refetch stub self w =
     (case self of Module c r \<Rightarrow>
        (case await_client_list stub c w of
           (Inl e, w') \<Rightarrow> (Inl e, w')
         | (Inr d, w') \<Rightarrow>
             (case map_of d (module_location self) of
                None \<Rightarrow> (Inl (KeyError (module_location self)), w')
              | Some mo \<Rightarrow> (Inr (Module c (ModuleObj mo)), w'))))"

definition create_netif ::
  "'r stub \<Rightarrow> module_obj \<Rightarrow> int \<Rightarrow> nat option \<Rightarrow> 'r world
     \<Rightarrow> (error + interface_obj) \<times> module_obj \<times> 'r world" where
  "create_netif stub self i attrs w =
     (let aw = attrs_or_new attrs w;
          w1 = append_attr (fst aw) (AttrStr ''index'', PInt i) (snd aw)
      in case self of Module c r \<Rightarrow>
           (case await_client_create stub c (OType NETIF) (lists w1 ! fst aw) (module_oid self) w1 of
              (Inl e, w2) \<Rightarrow> (Inl e, self, w2)
            | (Inr new_oid, w2) \<Rightarrow>
                (case refetch stub self w2 of
                   (Inl e, w3) \<Rightarrow> (Inl e, self, w3)
                 | (Inr self', w3) \<Rightarrow> (get_netif self' i, self', w3))))"

definition create_hostif ::
  "'r stub \<Rightarrow> module_obj \<Rightarrow> int \<Rightarrow> nat option \<Rightarrow> 'r world
     \<Rightarrow> (error + interface_obj) \<times> module_obj \<times> 'r world" where
  "create_hostif stub self i attrs w =
     (let aw = attrs_or_new attrs w;
          w1 = append_attr (fst aw) (AttrStr ''index'', PInt i) (snd aw)
      in case self of Module c r \<Rightarrow>
           (case await_client_create stub c (OType HOSTIF) (lists w1 ! fst aw) (module_oid self) w1 of
              (Inl e, w2) \<Rightarrow> (Inl e, self, w2)
            | (Inr new_oid, w2) \<Rightarrow>
                (case refetch stub self w2 of
                   (Inl e, w3) \<Rightarrow> (Inl e, self, w3)
                 | (Inr self', w3) \<Rightarrow> (get_hostif self' i, self', w3))))"

section \<open>The synchronous facade Client\<close>

text \<open>What a method of \<^verbatim>\<open>AsyncClient\<close> returns.\<close>

datatype retval =
    RetNone
  | RetOid nat
  | RetObject taiobject
  | RetModules "(string \<times> module_obj) list"
  | RetValue get_result
  | RetValues "get_result list"
  | RetMetadata metadata

text \<open>
  An entry \<^verbatim>\<open>(fname, args, kwargs)\<close> of the inbound queue, for the methods embedded above;
  \<open>Call_other n\<close> is a name \<open>n\<close> that \<^verbatim>\<open>AsyncClient\<close> does not have.
\<close>

datatype call =
    Call_list
  | Call_get_module string
  | Call_create_module string "nat option"
  | Call_create object_type_arg "(attr_ref \<times> pyval) list" nat
  | Call_set object_type nat attr_ref pyval
  | Call_set_multiple object_type nat "(attr_ref \<times> pyval) list"
  | Call_get object_type nat attr_ref bool pyval bool
  | Call_get_multiple object_type nat "get_entry list" bool bool
  | Call_get_attribute_metadata object_type attr_ref nat pyval
  | Call_other string

definition returning :: "('a \<Rightarrow> retval) \<Rightarrow> (error + 'a) \<times> 'w \<Rightarrow> (error + retval) \<times> 'w" where
  "returning f r = (case fst r of Inl e \<Rightarrow> (Inl e, snd r) | Inr v \<Rightarrow> (Inr (f v), snd r))"

text \<open>
  \<^verbatim>\<open>f = getattr(c, fname); ret = await f(*args, **kwargs)\<close> inside \<^verbatim>\<open>try\<close>, with
  \<^verbatim>\<open>except Exception as e: ret = e\<close>: the outcome of the call on the worker's client \<open>c\<close>,
  an exception being a left value.
\<close>

definition invoke :: "'r stub \<Rightarrow> nat \<Rightarrow> call \<Rightarrow> 'r world \<Rightarrow> (error + retval) \<times> 'r world" where
  "invoke stub c i w =
     (case i of
        Call_list \<Rightarrow> (Inr (RetModules (fst (list stub c w))), snd (list stub c w))
      | Call_get_module loc \<Rightarrow> returning (\<lambda>m. RetObject (ModuleT m)) (get_module stub c loc w)
      | Call_create_module loc attrs \<Rightarrow>
          returning (\<lambda>m. RetObject (ModuleT m)) (create_module stub c loc attrs w)
      | Call_create ota attrs module_id \<Rightarrow> returning RetOid (create stub ota attrs module_id w)
      | Call_set ot oid' attr v \<Rightarrow> returning (\<lambda>u. RetNone) (set' stub ot oid' attr v w)
      | Call_set_multiple ot oid' attributes \<Rightarrow>
          returning (\<lambda>u. RetNone) (set_multiple stub ot oid' attributes w)
      | Call_get ot oid' attr with_metadata v json' \<Rightarrow>
          returning RetValue (get stub ot oid' attr with_metadata v json' w)
      | Call_get_multiple ot oid' attributes with_metadata json' \<Rightarrow>
          returning RetValues (get_multiple stub ot oid' attributes with_metadata json' w)
      | Call_get_attribute_metadata ot attr oid' loc \<Rightarrow>
          returning RetMetadata (get_attribute_metadata stub ot attr oid' loc w)
      | Call_other n \<Rightarrow> (Inl (AttributeError n), w))"

text \<open>
  The state of a facade: the two queues (\<open>None\<close> in the inbound queue is the sentinel of
  \<^verbatim>\<open>close\<close>), whether the worker thread is still inside its loop, and the world of the
  worker's client.  The facade is stated for any type of calls \<open>'c\<close> and any function
  \<open>exec\<close> that carries a call out; \<open>invoke stub c\<close> above is the one of this library.
\<close>

record ('c, 'w) facade =
  in_q :: "'c option list"
  out_q :: "(error + retval) list"
  alive :: bool
  inner :: 'w

text \<open>\<^verbatim>\<open>if isinstance(ret, TAIObject): ret.client = self\<close>, for the facade numbered \<open>self\<close>.\<close>

definition rebind :: "nat \<Rightarrow> error + retval \<Rightarrow> error + retval" where
  "rebind self ret =
     (case ret of
        Inr (RetObject t) \<Rightarrow> Inr (RetObject (set_client (ClientRef self) t))
      | _ \<Rightarrow> ret)"

text \<open>
  One pass of the worker's \<^verbatim>\<open>while True\<close> in \<^verbatim>\<open>Client.loop\<close>; \<open>None\<close> when the worker
  cannot move (it has returned, or it waits in \<^verbatim>\<open>self.in_q.get()\<close>).
\<close>

definition loop ::
  "('c \<Rightarrow> 'w \<Rightarrow> (error + retval) \<times> 'w) \<Rightarrow> nat \<Rightarrow> ('c, 'w) facade \<Rightarrow> ('c, 'w) facade option" where
  "loop exec self st =
     (if \<not> alive st then None
      else (case in_q st of
              [] \<Rightarrow> None
            | None # q \<Rightarrow> Some (st\<lparr>in_q := q, alive := False\<rparr>)
            | Some i # q \<Rightarrow>
                Some (st\<lparr>in_q := q,
                         out_q := out_q st @ [rebind self (fst (exec i (inner st)))],
                         inner := snd (exec i (inner st))\<rparr>)))"

text \<open>
  The function \<^verbatim>\<open>f\<close> that \<^verbatim>\<open>__getattr__\<close> returns, in its two blocking steps:
  \<^verbatim>\<open>self.in_q.put((name, args, kwargs))\<close> and \<^verbatim>\<open>ret = self.out_q.get()\<close>.  The reply is
  raised when it is an exception and returned otherwise: the caller's outcome is the
  reply, a left value being the raised error.
\<close>

definition put :: "'c \<Rightarrow> ('c, 'w) facade \<Rightarrow> ('c, 'w) facade" where
  "put i st = st\<lparr>in_q := in_q st @ [Some i]\<rparr>"

definition take_reply :: "('c, 'w) facade \<Rightarrow> ((error + retval) \<times> ('c, 'w) facade) option" where
  "take_reply st = (case out_q st of [] \<Rightarrow> None | r # q \<Rightarrow> Some (r, st\<lparr>out_q := q\<rparr>))"

text \<open>
  A call by a caller that has the facade to itself: the request is put, the worker makes
  its pass, the caller takes the reply.  \<open>None\<close> means that the caller stays blocked.
\<close>

definition getattr_call ::
  "('c \<Rightarrow> 'w \<Rightarrow> (error + retval) \<times> 'w) \<Rightarrow> nat \<Rightarrow> 'c \<Rightarrow> ('c, 'w) facade
     \<Rightarrow> ((error + retval) \<times> ('c, 'w) facade) option" where
  "getattr_call exec self i st =
     (case loop exec self (put i st) of
        None \<Rightarrow> None
      | Some st' \<Rightarrow> take_reply st')"

text \<open>A facade as \<^verbatim>\<open>__init__\<close> leaves it: both queues empty, the worker started.\<close>

definition init :: "'w \<Rightarrow> ('c, 'w) facade" where
  "init w = \<lparr>in_q = [], out_q = [], alive = True, inner = w\<rparr>"

subsection \<open>Several caller threads\<close>

text \<open>
  Caller threads are numbered.  The steps of the whole system are the atomic queue
  operations of the source: a thread with no call outstanding puts its request and goes on
  to \<^verbatim>\<open>self.out_q.get()\<close> (\<open>Submit\<close>); the worker makes one pass (\<open>Work\<close>); a thread with
  a call outstanding takes the reply at the head of the outbound queue (\<open>Deliver\<close>).  The
  list beside the facade holds the threads with a call outstanding.  A step that cannot
  be taken yields \<open>None\<close>; a \<open>Deliver\<close> step also yields who received which reply.
\<close>

datatype 'c action = Submit nat 'c | Work | Deliver nat

type_synonym ('c, 'w) system = "('c, 'w) facade \<times> nat list"

fun fire ::
  "('c \<Rightarrow> 'w \<Rightarrow> (error + retval) \<times> 'w) \<Rightarrow> nat \<Rightarrow> 'c action \<Rightarrow> ('c, 'w) system
     \<Rightarrow> (('c, 'w) system \<times> (nat \<times> (error + retval)) list) option" where
  "fire exec self (Submit t i) (st, blocked) =
     (if t \<in> set blocked then None else Some ((put i st, blocked @ [t]), []))"
| "fire exec self Work (st, blocked) =
     (case loop exec self st of None \<Rightarrow> None | Some st' \<Rightarrow> Some ((st', blocked), []))"
| "fire exec self (Deliver t) (st, blocked) =
     (if t \<in> set blocked
      then (case take_reply st of
              None \<Rightarrow> None
            | Some (r, st') \<Rightarrow> Some ((st', removeAll t blocked), [(t, r)]))
      else None)"

fun run ::
  "('c \<Rightarrow> 'w \<Rightarrow> (error + retval) \<times> 'w) \<Rightarrow> nat \<Rightarrow> 'c action list \<Rightarrow> ('c, 'w) system
     \<Rightarrow> (('c, 'w) system \<times> (nat \<times> (error + retval)) list) option" where
  "run exec self [] s = Some (s, [])"
| "run exec self (a # as) s =
     (case fire exec self a s of
        None \<Rightarrow> None
      | Some (s', d) \<Rightarrow>
          (case run exec self as s' of
             None \<Rightarrow> None
           | Some (s'', ds) \<Rightarrow> Some (s'', d @ ds)))"

text \<open>The requests of a schedule in the order of their submission, with and without
  the submitting thread.\<close>

fun submissions :: "'c action list \<Rightarrow> (nat \<times> 'c) list" where
  "submissions [] = []"
| "submissions (Submit t i # as) = (t, i) # submissions as"
| "submissions (Work # as) = submissions as"
| "submissions (Deliver t # as) = submissions as"

text \<open>
  The replies that the calls \<open>is\<close> get when they are carried out one after the other, in
  this order, from the world \<open>w\<close>: the reference against which the order of the facade's
  replies is stated.
\<close>

fun in_order_replies ::
  "('c \<Rightarrow> 'w \<Rightarrow> (error + retval) \<times> 'w) \<Rightarrow> nat \<Rightarrow> 'c list \<Rightarrow> 'w \<Rightarrow> (error + retval) list" where
  "in_order_replies exec self [] w = []"
| "in_order_replies exec self (i # is) w =
     rebind self (fst (exec i w)) # in_order_replies exec self is (snd (exec i w))"

text \<open>A schedule in which no two calls overlap: each call is submitted, served and
  delivered before the next one is submitted.\<close>

fun one_at_a_time :: "(nat \<times> 'c) list \<Rightarrow> 'c action list" where
  "one_at_a_time [] = []"
| "one_at_a_time ((t, i) # cs) = [Submit t i, Work, Deliver t] @ one_at_a_time cs"

text \<open>The calls that wait in the inbound queue.\<close>

definition pending :: "('c, 'w) facade \<Rightarrow> 'c list" where
  "pending st = concat (map (\<lambda>x. case x of None \<Rightarrow> [] | Some i \<Rightarrow> [i]) (in_q st))"

text \<open>
  The statement that every caller's reply corresponds to its own submission and that calls
  complete in the order of submission, for the schedule \<open>as\<close> run from a new facade: the
  deliveries, in the order in which they happen, go to the submitting threads in the order
  of their submissions, each with the reply to its own call.
\<close>

definition delivered_to_own_callers ::
  "('c \<Rightarrow> 'w \<Rightarrow> (error + retval) \<times> 'w) \<Rightarrow> nat \<Rightarrow> 'c action list \<Rightarrow> 'w \<Rightarrow> bool" where
  "delivered_to_own_callers exec self as w =
     (case run exec self as (init w, []) of
        None \<Rightarrow> True
      | Some (s, ds) \<Rightarrow>
          ds = take (length ds)
                 (zip (map fst (submissions as))
                    (in_order_replies exec self (map snd (submissions as)) w)))"

text \<open>The number of streams opened in a log of stub calls.\<close>

definition stream_opens :: "event list \<Rightarrow> nat" where
  "stream_opens tr = length (filter (\<lambda>e. case e of Open r \<Rightarrow> True | _ \<Rightarrow> False) tr)"

section \<open>A sample remote service\<close>

text \<open>
  A small remote service on which the statements below are exercised.  Its state counts
  the objects created so far.  It knows three attributes (\<^verbatim>\<open>location\<close> is number 1,
  \<^verbatim>\<open>index\<close> number 2 and the notification \<^verbatim>\<open>notify\<close> number 3) and lists three modules:
  at location 1 a module that is present and has no object until something is created,
  at location 2 an absent one, at location 3 a created one whose first network interface
  shows up, with index 7, once something is created.
\<close>

definition sample_metadata :: "request \<Rightarrow> metadata \<times> trailing" where
  "sample_metadata req =
     (case req of
        GetAttributeMetadataRequest ot oid' loc i n so \<Rightarrow>
          (if n = ''location'' \<or> (n = [] \<and> i = 1)
           then (\<lparr>attr_id = 1, name = ''location'', usage = ''<normal>''\<rparr>, (None, None))
           else if n = ''index'' \<or> (n = [] \<and> i = 2)
           then (\<lparr>attr_id = 2, name = ''index'', usage = ''<normal>''\<rparr>, (None, None))
           else if n = ''notify'' \<or> (n = [] \<and> i = 3)
           then (\<lparr>attr_id = 3, name = ''notify'', usage = ''<notification>''\<rparr>, (None, None))
           else (\<lparr>attr_id = 0, name = [], usage = []\<rparr>, (Some 7, Some ''no such attribute'')))
      | _ \<Rightarrow> (\<lparr>attr_id = 0, name = [], usage = []\<rparr>, (Some 5, None)))"

definition sample_values :: "request \<Rightarrow> attribute list \<times> trailing" where
  "sample_values req =
     (case req of
        GetAttributeRequest oid' attrs so \<Rightarrow>
          (map (\<lambda>a. (fst a, if fst a = 1 then ''3'' else if fst a = 2 then ''0'' else ''on'')) attrs,
           (None, None))
      | _ \<Rightarrow> ([], (Some 5, None)))"

definition sample_listing :: "nat \<Rightarrow> module_msg list" where
  "sample_listing created =
     [\<lparr>location = ''1'', present = True, oid = (if created = 0 then 0 else 11),
        hostifs = [], netifs = []\<rparr>,
      \<lparr>location = ''2'', present = False, oid = 0, hostifs = [], netifs = []\<rparr>,
      \<lparr>location = ''3'', present = True, oid = 33, hostifs = [],
        netifs = (if created = 0 then [] else [\<lparr>index = 7, if_oid = 331\<rparr>])\<rparr>]"

definition sample_stub :: "nat stub" where
  "sample_stub =
     \<lparr>ListModule = (\<lambda>r. (sample_listing r, r)),
      GetAttributeMetadata = (\<lambda>req r. (sample_metadata req, r)),
      Create = (\<lambda>req r. ((100 + r, (None, None)), Suc r)),
      SetAttribute = (\<lambda>req r. ((None, None), r)),
      GetAttribute = (\<lambda>req r. (sample_values req, r)),
      Monitor = (\<lambda>req r. r),
      Monitor_recv = (\<lambda>r. (Inr (Some ''changed''), r))\<rparr>"

text \<open>A world in which nothing has happened yet; the caller holds one empty attribute list.\<close>

definition sample_world :: "nat world" where
  "sample_world = \<lparr>remote = 0, trace = [], lists = [[]]\<rparr>"

text \<open>The created module at location 3, as \<^verbatim>\<open>get_module\<close> of client 0 returns it first.\<close>

definition sample_module :: module_obj where
  "sample_module =
     Module (AsyncClientRef 0)
       (ModuleMsg \<lparr>location = ''3'', present = True, oid = 33, hostifs = [], netifs = []\<rparr>)"

text \<open>A callback that never raises.\<close>

definition quiet_callback :: callback where
  "quiet_callback obj m msg = None"

section \<open>Evaluating the sample service\<close>

lemmas sample_defs =
  sample_stub_def sample_world_def sample_listing_def sample_metadata_def sample_values_def
  sample_module_def quiet_callback_def

lemmas call_defs =
  get_attribute_metadata_def metadata_request_def check_metadata_def log_def
  set_default_serialize_option_def list_def get_module_def get_multiple_def
  get_multiple_resolve_def get_multiple_collect_def get_def py_index_def set_multiple_def
  set'_def create_def create_stream_def create_object_type_def create_module_def
  attrs_or_new_def append_attr_def monitor_def await_client_create_def await_client_list_def
  refetch_def create_netif_def create_hostif_def

section \<open>get\_module\<close>

lemma get_module_scan_find:
  "get_module_scan self loc ms =
     (case find (\<lambda>m. location m = loc) ms of
        None \<Rightarrow> Inl (TAIException (- 1) (''no module '' @ loc @ '' found''))
      | Some m \<Rightarrow>
          if \<not> present m then Inl (TAIException (- 1) (''module '' @ loc @ '' not present''))
          else if oid m = 0 then Inl (TAIException (- 1) (''module '' @ loc @ '' not created yet''))
          else Inr (Module (AsyncClientRef self) (ModuleMsg m)))"
  by (induction ms) auto

lemma find_distinct_location:
  "distinct (map location ms) \<Longrightarrow> m \<in> set ms
     \<Longrightarrow> find (\<lambda>x. location x = location m) ms = Some m"
  by (induction ms) (auto simp: rev_image_eqI)

lemma failure_messages_distinct:
  "''module '' @ loc @ '' not present'' \<noteq> ''module '' @ loc @ '' not created yet''"
  "''module '' @ loc @ '' not present'' \<noteq> ''no module '' @ loc @ '' found''"
  "''module '' @ loc @ '' not created yet'' \<noteq> ''no module '' @ loc @ '' found''"
proof -
  show "''module '' @ loc @ '' not present'' \<noteq> ''module '' @ loc @ '' not created yet''"
    by simp
  have "length (''module '' @ loc @ '' not present'')
          \<noteq> length (''no module '' @ loc @ '' found'')"
    by simp
  then show "''module '' @ loc @ '' not present'' \<noteq> ''no module '' @ loc @ '' found''"
    by metis
  have "length (''module '' @ loc @ '' not created yet'')
          \<noteq> length (''no module '' @ loc @ '' found'')"
    by simp
  then show "''module '' @ loc @ '' not created yet'' \<noteq> ''no module '' @ loc @ '' found''"
    by metis
qed

text \<open>
  Claim C4.  Let the listing hold at most one module per location (the location is the
  key of a module).  Then \<^verbatim>\<open>get_module(location)\<close> ends in exactly one of four ways, told
  by the listed module at that location: it raises \<^verbatim>\<open>TAIException(-1, "module L not present")\<close>
  when that module is not present, \<^verbatim>\<open>TAIException(-1, "module L not created yet")\<close> when it
  is present with object id 0, \<^verbatim>\<open>TAIException(-1, "no module L found")\<close> when no module is
  listed at the location, and returns the module, owned by the client, otherwise.  The
  three errors differ from each other for every location.
\<close>

theorem get_module_failures:
  assumes "distinct (map location (fst (ListModule stub (remote w))))"
  shows "(\<forall>m \<in> set (fst (ListModule stub (remote w))).
            location m = loc \<and> \<not> present m \<longrightarrow>
            fst (get_module stub self loc w)
              = Inl (TAIException (- 1) (''module '' @ loc @ '' not present'')))
       \<and> (\<forall>m \<in> set (fst (ListModule stub (remote w))).
            location m = loc \<and> present m \<and> oid m = 0 \<longrightarrow>
            fst (get_module stub self loc w)
              = Inl (TAIException (- 1) (''module '' @ loc @ '' not created yet'')))
       \<and> ((\<forall>m \<in> set (fst (ListModule stub (remote w))). location m \<noteq> loc) \<longrightarrow>
            fst (get_module stub self loc w)
              = Inl (TAIException (- 1) (''no module '' @ loc @ '' found'')))
       \<and> (\<forall>m \<in> set (fst (ListModule stub (remote w))).
            location m = loc \<and> present m \<and> oid m \<noteq> 0 \<longrightarrow>
            fst (get_module stub self loc w) = Inr (Module (AsyncClientRef self) (ModuleMsg m)))
       \<and> TAIException (- 1) (''module '' @ loc @ '' not present'')
            \<noteq> TAIException (- 1) (''module '' @ loc @ '' not created yet'')
       \<and> TAIException (- 1) (''module '' @ loc @ '' not present'')
            \<noteq> TAIException (- 1) (''no module '' @ loc @ '' found'')
       \<and> TAIException (- 1) (''module '' @ loc @ '' not created yet'')
            \<noteq> TAIException (- 1) (''no module '' @ loc @ '' found'')"
proof -
  let ?ms = "fst (ListModule stub (remote w))"
  have r: "fst (get_module stub self loc w) = get_module_scan self loc ?ms"
    by (simp add: get_module_def Let_def)
  have f: "\<And>m. m \<in> set ?ms \<Longrightarrow> location m = loc
             \<Longrightarrow> find (\<lambda>x. location x = loc) ?ms = Some m"
    using find_distinct_location [OF assms] by blast
  have n: "(\<forall>m \<in> set ?ms. location m \<noteq> loc) \<Longrightarrow> find (\<lambda>x. location x = loc) ?ms = None"
    by (simp add: find_None_iff)
  show ?thesis
    using f n failure_messages_distinct [of loc]
    by (auto simp: r get_module_scan_find)
qed

theorem get_module_failures_witness:
  "distinct (map location (fst (ListModule sample_stub (remote sample_world))))
   \<and> fst (get_module sample_stub 0 ''2'' sample_world)
       = Inl (TAIException (- 1) ''module 2 not present'')
   \<and> fst (get_module sample_stub 0 ''1'' sample_world)
       = Inl (TAIException (- 1) ''module 1 not created yet'')
   \<and> fst (get_module sample_stub 0 ''4'' sample_world)
       = Inl (TAIException (- 1) ''no module 4 found'')
   \<and> fst (get_module sample_stub 0 ''3'' sample_world) = Inr sample_module"
proof -
  have d: "distinct (map location (fst (ListModule sample_stub (remote sample_world))))"
    by (simp add: sample_defs)
  have "fst (get_module sample_stub 0 ''2'' sample_world)
          = Inl (TAIException (- 1) ''module 2 not present'')"
    using get_module_failures [OF d, of "''2''" 0] by (simp add: sample_defs)
  moreover have "fst (get_module sample_stub 0 ''1'' sample_world)
          = Inl (TAIException (- 1) ''module 1 not created yet'')"
    using get_module_failures [OF d, of "''1''" 0] by (simp add: sample_defs)
  moreover have "fst (get_module sample_stub 0 ''4'' sample_world)
          = Inl (TAIException (- 1) ''no module 4 found'')"
    using get_module_failures [OF d, of "''4''" 0] by (simp add: sample_defs)
  moreover have "fst (get_module sample_stub 0 ''3'' sample_world) = Inr sample_module"
    using get_module_failures [OF d, of "''3''" 0] by (simp add: sample_defs)
  ultimately show ?thesis
    using d by simp
qed

section \<open>create\<close>

lemma create_location_missing:
  "\<forall>attr \<in> set attrs. fst attr \<noteq> AttrStr ''location''
     \<Longrightarrow> create_location attrs = Inl (TAIException 14 ''mandatory-attribute-missing'')"
  by (induction attrs) auto

text \<open>
  Claim C5.  When no entry of the attribute list has the key \<^verbatim>\<open>"location"\<close>, \<^verbatim>\<open>create\<close> with
  parent module id 0 raises \<^verbatim>\<open>TAIException(0xE, "mandatory-attribute-missing")\<close> and leaves
  the world as it was: the log of stub calls has not grown (no stream was opened, no
  metadata was looked up) and the remote service has not been reached.
\<close>

theorem create_mandatory_attribute_missing:
  assumes "\<forall>attr \<in> set attrs. fst attr \<noteq> AttrStr ''location''"
  shows "create stub ota attrs 0 w
           = (Inl (TAIException 14 ''mandatory-attribute-missing''), w)"
  using create_location_missing [OF assms] by (simp add: create_def)

theorem create_mandatory_attribute_missing_witness:
  "AttrStr ''location'' \<notin> fst ` set [(AttrStr ''index'', PInt 0), (AttrInt 1, PStr ''3'')]
   \<and> create sample_stub (OType NETIF) [(AttrStr ''index'', PInt 0), (AttrInt 1, PStr ''3'')] 0
        sample_world
       = (Inl (TAIException 14 ''mandatory-attribute-missing''), sample_world)"
proof -
  have h: "\<forall>attr \<in> set [(AttrStr ''index'', PInt 0), (AttrInt 1, PStr ''3'')].
             fst attr \<noteq> AttrStr ''location''"
    by simp
  show ?thesis
    using h create_mandatory_attribute_missing [OF h, of sample_stub "OType NETIF" sample_world]
    by simp
qed

section \<open>The store of attribute lists\<close>

text \<open>No call on the stub touches the lists that callers hold.\<close>

lemma lists_log [simp]: "lists (log e w) = lists w"
  by (simp add: log_def)

lemma lists_get_attribute_metadata:
  "get_attribute_metadata stub ot attr oid' loc w = (res, w') \<Longrightarrow> lists w' = lists w"
  by (cases "metadata_request ot attr oid' loc")
     (auto simp: get_attribute_metadata_def Let_def split: sum.splits)

lemma lists_get_multiple_resolve:
  "get_multiple_resolve stub ot oid' wm entry meta a w = (res, w') \<Longrightarrow> lists w' = lists w"
  unfolding get_multiple_resolve_def Let_def
  by (auto split: attr_ref.splits prod.splits sum.splits if_splits
           dest: lists_get_attribute_metadata)

lemma lists_get_multiple_loop:
  "get_multiple_loop stub ot oid' wm entries attrs meta a w = (res, w') \<Longrightarrow> lists w' = lists w"
proof (induction entries arbitrary: attrs meta a w)
  case Nil
  then show ?case by simp
next
  case (Cons entry entries)
  obtain r1 w1 where s: "get_multiple_resolve stub ot oid' wm entry meta a w = (r1, w1)"
    by (cases "get_multiple_resolve stub ot oid' wm entry meta a w")
  have w1: "lists w1 = lists w"
    using lists_get_multiple_resolve [OF s] .
  show ?case
  proof (cases r1)
    case (Inl e)
    with s Cons.prems w1 show ?thesis by simp
  next
    case (Inr p)
    with s Cons.prems have
      "get_multiple_loop stub ot oid' wm entries (attrs @ [(fst p, [])]) (snd p)
         (Some (fst p, [])) w1 = (res, w')"
      by (simp split: prod.splits)
    from Cons.IH [OF this] w1 show ?thesis by simp
  qed
qed

lemma lists_get_multiple:
  "get_multiple stub ot oid' attributes wm js w = (res, w') \<Longrightarrow> lists w' = lists w"
  unfolding get_multiple_def Let_def
  by (auto split: prod.splits sum.splits dest!: lists_get_multiple_loop)

lemma lists_get:
  "get stub ot oid' attr wm v js w = (res, w') \<Longrightarrow> lists w' = lists w"
  unfolding get_def
  by (auto split: prod.splits sum.splits dest!: lists_get_multiple)

lemma lists_create_loop:
  "create_loop stub ot loc attrs req_attrs w = (res, w') \<Longrightarrow> lists w' = lists w"
proof (induction attrs arbitrary: req_attrs w)
  case Nil
  then show ?case by simp
next
  case (Cons attr attrs)
  obtain r1 w1 where s: "get_attribute_metadata stub ot (fst attr) 0 loc w = (r1, w1)"
    by (cases "get_attribute_metadata stub ot (fst attr) 0 loc w")
  have w1: "lists w1 = lists w"
    using lists_get_attribute_metadata [OF s] .
  show ?case
  proof (cases r1)
    case (Inl e)
    with s Cons.prems w1 show ?thesis by simp
  next
    case (Inr m)
    with s Cons.prems have
      "create_loop stub ot loc attrs (req_attrs @ [(attr_id m, str (snd attr))]) w1 = (res, w')"
      by simp
    from Cons.IH [OF this] w1 show ?thesis by simp
  qed
qed

lemma lists_create_stream:
  "create_stream stub ota attrs module_id loc w = (res, w') \<Longrightarrow> lists w' = lists w"
  unfolding create_stream_def Let_def
  by (auto split: prod.splits sum.splits dest!: lists_create_loop)

lemma lists_create:
  "create stub ota attrs module_id w = (res, w') \<Longrightarrow> lists w' = lists w"
  unfolding create_def
  by (auto split: prod.splits sum.splits if_splits dest!: lists_create_stream lists_get)

lemma lists_list: "list stub n w = (res, w') \<Longrightarrow> lists w' = lists w"
  by (auto simp: list_def Let_def)

lemma lists_get_module: "get_module stub n loc w = (res, w') \<Longrightarrow> lists w' = lists w"
  by (auto simp: get_module_def Let_def)

lemma lists_await_client_create:
  "await_client_create stub c ota attrs module_id w = (res, w') \<Longrightarrow> lists w' = lists w"
  unfolding await_client_create_def
  by (auto split: client_ref.splits prod.splits sum.splits dest!: lists_create)

lemma lists_refetch: "refetch stub self w = (res, w') \<Longrightarrow> lists w' = lists w"
  unfolding refetch_def await_client_list_def
  by (auto simp: list_def Let_def
           split: module_obj.splits client_ref.splits prod.splits sum.splits option.splits)

lemma lists_create_module:
  "create_module stub self loc attrs w = (res, w')
     \<Longrightarrow> lists w' = lists (append_attr (fst (attrs_or_new attrs w)) (AttrStr ''location'', PStr loc)
                          (snd (attrs_or_new attrs w)))"
  unfolding create_module_def Let_def
  by (auto split: prod.splits sum.splits dest!: lists_create lists_get_module)

lemma lists_create_netif:
  "create_netif stub self i attrs w = (res, self', w')
     \<Longrightarrow> lists w' = lists (append_attr (fst (attrs_or_new attrs w)) (AttrStr ''index'', PInt i)
                          (snd (attrs_or_new attrs w)))"
  unfolding create_netif_def Let_def
  by (auto split: module_obj.splits prod.splits sum.splits
           dest!: lists_await_client_create lists_refetch)

lemma lists_create_hostif:
  "create_hostif stub self i attrs w = (res, self', w')
     \<Longrightarrow> lists w' = lists (append_attr (fst (attrs_or_new attrs w)) (AttrStr ''index'', PInt i)
                          (snd (attrs_or_new attrs w)))"
  unfolding create_hostif_def Let_def
  by (auto split: module_obj.splits prod.splits sum.splits
           dest!: lists_await_client_create lists_refetch)


text \<open>
  Claim C10.  \<^verbatim>\<open>create_module\<close>, \<^verbatim>\<open>create_netif\<close> and \<^verbatim>\<open>create_hostif\<close>, given the caller's list,
  append their entry (\<^verbatim>\<open>("location", location)\<close> or \<^verbatim>\<open>("index", index)\<close>) to that list in
  the store and leave every other list as it was, whatever the outcome of the call; given
  \<open>None\<close> they allocate a new list and leave the caller's lists as they were.  Two calls
  with the same list leave both entries in it.
\<close>

theorem attrs_list_mutated_in_place:
  assumes "a < length (lists w)"
  shows "lists (snd (create_module stub self loc (Some a) w))
           = (lists w)[a := lists w ! a @ [(AttrStr ''location'', PStr loc)]]
       \<and> lists (snd (snd (create_netif stub m i (Some a) w)))
           = (lists w)[a := lists w ! a @ [(AttrStr ''index'', PInt i)]]
       \<and> lists (snd (snd (create_hostif stub m i (Some a) w)))
           = (lists w)[a := lists w ! a @ [(AttrStr ''index'', PInt i)]]
       \<and> lists (snd (create_module stub self loc None w))
           = lists w @ [[(AttrStr ''location'', PStr loc)]]
       \<and> lists (snd (snd (create_netif stub m i None w)))
           = lists w @ [[(AttrStr ''index'', PInt i)]]
       \<and> lists (snd (snd (create_hostif stub m i None w)))
           = lists w @ [[(AttrStr ''index'', PInt i)]]
       \<and> lists (snd (create_module stub self loc' (Some a)
                        (snd (create_module stub self loc (Some a) w))))
           = (lists w)[a := lists w ! a @ [(AttrStr ''location'', PStr loc),
                                            (AttrStr ''location'', PStr loc')]]
       \<and> lists (snd (snd (create_netif stub m' j (Some a)
                             (snd (snd (create_netif stub m i (Some a) w))))))
           = (lists w)[a := lists w ! a @ [(AttrStr ''index'', PInt i),
                                            (AttrStr ''index'', PInt j)]]"
proof -
  have cm: "\<And>l at v. lists (snd (create_module stub self l at v))
              = lists (append_attr (fst (attrs_or_new at v)) (AttrStr ''location'', PStr l)
                         (snd (attrs_or_new at v)))"
    using lists_create_module by (metis prod.collapse)
  have cn: "\<And>mo k at v. lists (snd (snd (create_netif stub mo k at v)))
              = lists (append_attr (fst (attrs_or_new at v)) (AttrStr ''index'', PInt k)
                         (snd (attrs_or_new at v)))"
    using lists_create_netif by (metis prod.collapse)
  have ch: "\<And>mo k at v. lists (snd (snd (create_hostif stub mo k at v)))
              = lists (append_attr (fst (attrs_or_new at v)) (AttrStr ''index'', PInt k)
                         (snd (attrs_or_new at v)))"
    using lists_create_hostif by (metis prod.collapse)
  show ?thesis
    using assms by (simp add: cm cn ch attrs_or_new_def append_attr_def)
qed

theorem attrs_list_mutated_in_place_witness:
  "0 < length (lists sample_world)
   \<and> lists (snd (create_module sample_stub 0 ''1'' (Some 0)
                   (snd (create_module sample_stub 0 ''1'' (Some 0) sample_world))))
       = [[(AttrStr ''location'', PStr ''1''), (AttrStr ''location'', PStr ''1'')]]
   \<and> lists (snd (create_module sample_stub 0 ''1'' None sample_world))
       = [[], [(AttrStr ''location'', PStr ''1'')]]"
proof -
  have h: "0 < length (lists sample_world)"
    by (simp add: sample_world_def)
  show ?thesis
    using h attrs_list_mutated_in_place [OF h, of sample_stub 0 "''1''" _ _ "''1''"]
    by (simp add: sample_world_def)
qed

section \<open>create\_netif and create\_hostif\<close>








section \<open>Attribute references by name and by id\<close>

lemma get_attribute_metadata_read_only:
  assumes "metadata_request ot attr oid' loc = Inr req"
    and "GetAttributeMetadata stub req (remote w) = ((m, md), remote w)"
    and "check_metadata md = Inr ()"
  shows "get_attribute_metadata stub ot attr oid' loc w
           = (Inr m, w\<lparr>trace := trace w @ [Open GetAttributeMetadataRPC, Send req,
                                         Recv GetAttributeMetadataRPC,
                                         RecvTrailing GetAttributeMetadataRPC,
                                         Close GetAttributeMetadataRPC]\<rparr>)"
  using assms by (simp add: get_attribute_metadata_def log_def Let_def)

text \<open>
  Claim C8.  Let the attribute named \<open>n\<close> be addressable on the object: the metadata
  lookup by name succeeds, returns a descriptor with id \<open>i\<close> and leaves the remote service
  as it was.  Then \<^verbatim>\<open>set\<close> by the name and \<^verbatim>\<open>set\<close> by the id \<open>i\<close> have the same outcome and
  leave the remote service in the same state, and so do \<^verbatim>\<open>get\<close> by the name and by the id
  without metadata; with metadata they agree as well when the lookup by the id returns
  the same descriptor.  A call by id without metadata logs exactly the five steps of its
  own stream: no metadata stream is opened and no metadata request is sent.
\<close>

theorem name_and_id_agree:
  assumes "GetAttributeMetadata stub
             (GetAttributeMetadataRequest ot oid' [] 0 n set_default_serialize_option) (remote w)
           = ((m, md), remote w)"
    and "check_metadata md = Inr ()"
    and "attr_id m = i"
  shows "fst (set' stub ot oid' (AttrStr n) v w) = fst (set' stub ot oid' (AttrInt i) v w)
       \<and> remote (snd (set' stub ot oid' (AttrStr n) v w))
           = remote (snd (set' stub ot oid' (AttrInt i) v w))
       \<and> fst (get stub ot oid' (AttrStr n) False h js w)
           = fst (get stub ot oid' (AttrInt i) False h js w)
       \<and> remote (snd (get stub ot oid' (AttrStr n) False h js w))
           = remote (snd (get stub ot oid' (AttrInt i) False h js w))
       \<and> (GetAttributeMetadata stub
             (GetAttributeMetadataRequest ot oid' [] i [] set_default_serialize_option) (remote w)
             = ((m, md'), remote w) \<and> check_metadata md' = Inr ()
           \<longrightarrow> fst (get stub ot oid' (AttrStr n) True h js w)
                 = fst (get stub ot oid' (AttrInt i) True h js w)
               \<and> remote (snd (get stub ot oid' (AttrStr n) True h js w))
                 = remote (snd (get stub ot oid' (AttrInt i) True h js w)))
       \<and> trace (snd (set' stub ot oid' (AttrInt i) v w))
           = trace w @ [Open SetAttributeRPC,
                        Send (SetAttributeRequest oid' [(i, str v)] set_default_serialize_option),
                        Recv SetAttributeRPC, RecvTrailing SetAttributeRPC, Close SetAttributeRPC]
       \<and> trace (snd (get stub ot oid' (AttrInt i) False h js w))
           = trace w @ [Open GetAttributeRPC,
                        Send (GetAttributeRequest oid' [(i, [])] (SerializeOption True True js)),
                        Recv GetAttributeRPC, RecvTrailing GetAttributeRPC, Close GetAttributeRPC]"
proof -
  let ?o = "\<lambda>rpc. w\<lparr>trace := trace w @ [Open rpc]\<rparr>"
  have byname: "\<And>rpc. get_attribute_metadata stub ot (AttrStr n) oid' (PStr []) (?o rpc)
      = (Inr m, (?o rpc)\<lparr>trace := trace (?o rpc) @ [Open GetAttributeMetadataRPC,
            Send (GetAttributeMetadataRequest ot oid' [] 0 n set_default_serialize_option),
            Recv GetAttributeMetadataRPC, RecvTrailing GetAttributeMetadataRPC,
            Close GetAttributeMetadataRPC]\<rparr>)"
    using assms(1,2)
      get_attribute_metadata_read_only
        [where ot = ot and attr = "AttrStr n" and oid' = oid' and loc = "PStr []" and stub = stub
           and req = "GetAttributeMetadataRequest ot oid' [] 0 n set_default_serialize_option"
           and m = m and md = md]
    by (simp add: metadata_request_def)
  have s1: "fst (set' stub ot oid' (AttrStr n) v w) = fst (set' stub ot oid' (AttrInt i) v w)
       \<and> remote (snd (set' stub ot oid' (AttrStr n) v w))
           = remote (snd (set' stub ot oid' (AttrInt i) v w))"
    using assms(3) by (simp add: set'_def set_multiple_def log_def Let_def byname)
  have g1: "fst (get stub ot oid' (AttrStr n) False h js w)
           = fst (get stub ot oid' (AttrInt i) False h js w)
       \<and> remote (snd (get stub ot oid' (AttrStr n) False h js w))
           = remote (snd (get stub ot oid' (AttrInt i) False h js w))"
    using assms(3)
    by (simp add: get_def get_multiple_def get_multiple_resolve_def get_multiple_collect_def
                  log_def Let_def byname split: sum.splits)
  have g2: "GetAttributeMetadata stub
             (GetAttributeMetadataRequest ot oid' [] i [] set_default_serialize_option) (remote w)
             = ((m, md'), remote w) \<and> check_metadata md' = Inr ()
           \<longrightarrow> fst (get stub ot oid' (AttrStr n) True h js w)
                 = fst (get stub ot oid' (AttrInt i) True h js w)
               \<and> remote (snd (get stub ot oid' (AttrStr n) True h js w))
                 = remote (snd (get stub ot oid' (AttrInt i) True h js w))"
  proof
    assume b: "GetAttributeMetadata stub
             (GetAttributeMetadataRequest ot oid' [] i [] set_default_serialize_option) (remote w)
             = ((m, md'), remote w) \<and> check_metadata md' = Inr ()"
    have byid: "get_attribute_metadata stub ot (AttrInt i) oid' (PStr []) (?o GetAttributeRPC)
      = (Inr m, (?o GetAttributeRPC)\<lparr>trace := trace (?o GetAttributeRPC) @ [Open GetAttributeMetadataRPC,
            Send (GetAttributeMetadataRequest ot oid' [] i [] set_default_serialize_option),
            Recv GetAttributeMetadataRPC, RecvTrailing GetAttributeMetadataRPC,
            Close GetAttributeMetadataRPC]\<rparr>)"
      using b
        get_attribute_metadata_read_only
          [where ot = ot and attr = "AttrInt i" and oid' = oid' and loc = "PStr []" and stub = stub
             and req = "GetAttributeMetadataRequest ot oid' [] i [] set_default_serialize_option"
             and m = m and md = md' and w = "w\<lparr>trace := trace w @ [Open GetAttributeRPC]\<rparr>"]
      by (simp add: metadata_request_def)
    show "fst (get stub ot oid' (AttrStr n) True h js w)
                 = fst (get stub ot oid' (AttrInt i) True h js w)
               \<and> remote (snd (get stub ot oid' (AttrStr n) True h js w))
                 = remote (snd (get stub ot oid' (AttrInt i) True h js w))"
      using assms(3)
      by (simp add: get_def get_multiple_def get_multiple_resolve_def get_multiple_collect_def
                    log_def Let_def byname byid split: sum.splits)
  qed
  have t1: "trace (snd (set' stub ot oid' (AttrInt i) v w))
           = trace w @ [Open SetAttributeRPC,
                        Send (SetAttributeRequest oid' [(i, str v)] set_default_serialize_option),
                        Recv SetAttributeRPC, RecvTrailing SetAttributeRPC, Close SetAttributeRPC]"
    by (simp add: set'_def set_multiple_def log_def Let_def)
  have t2: "trace (snd (get stub ot oid' (AttrInt i) False h js w))
           = trace w @ [Open GetAttributeRPC,
                        Send (GetAttributeRequest oid' [(i, [])] (SerializeOption True True js)),
                        Recv GetAttributeRPC, RecvTrailing GetAttributeRPC, Close GetAttributeRPC]"
    by (simp add: get_def get_multiple_def get_multiple_resolve_def
                  log_def Let_def split: sum.splits prod.splits)
  show ?thesis
    using s1 g1 g2 t1 t2 by blast
qed


theorem name_and_id_agree_witness:
  "fst (set' sample_stub MODULE 33 (AttrStr ''index'') (PInt 4) sample_world)
     = fst (set' sample_stub MODULE 33 (AttrInt 2) (PInt 4) sample_world)
   \<and> fst (get sample_stub MODULE 33 (AttrStr ''index'') False PNone False sample_world)
     = fst (get sample_stub MODULE 33 (AttrInt 2) False PNone False sample_world)
   \<and> fst (get sample_stub MODULE 33 (AttrStr ''index'') True PNone False sample_world)
     = fst (get sample_stub MODULE 33 (AttrInt 2) True PNone False sample_world)
   \<and> fst (get sample_stub MODULE 33 (AttrInt 2) True PNone False sample_world)
     = Inr (''0'', Some \<lparr>attr_id = 2, name = ''index'', usage = ''<normal>''\<rparr>)
   \<and> trace (snd (get sample_stub MODULE 33 (AttrInt 2) False PNone False sample_world))
     = [Open GetAttributeRPC,
        Send (GetAttributeRequest 33 [(2, [])] (SerializeOption True True False)),
        Recv GetAttributeRPC, RecvTrailing GetAttributeRPC, Close GetAttributeRPC]"
proof -
  let ?m = "\<lparr>attr_id = 2, name = ''index'', usage = ''<normal>''\<rparr>"
  have a: "GetAttributeMetadata sample_stub
             (GetAttributeMetadataRequest MODULE 33 [] 0 ''index'' set_default_serialize_option)
             (remote sample_world) = ((?m, (None, None)), remote sample_world)"
    by (simp add: sample_defs)
  have b: "GetAttributeMetadata sample_stub
             (GetAttributeMetadataRequest MODULE 33 [] 2 [] set_default_serialize_option)
             (remote sample_world) = ((?m, (None, None)), remote sample_world)"
    by (simp add: sample_defs)
  have c: "check_metadata (None, None) = Inr ()"
    by (simp add: check_metadata_def)
  have i: "attr_id ?m = 2"
    by simp
  have v: "fst (get sample_stub MODULE 33 (AttrInt 2) True PNone False sample_world)
             = Inr (''0'', Some ?m)"
    by (simp add: call_defs sample_defs Let_def)
  have t: "trace sample_world = []"
    by (simp add: sample_world_def)
  show ?thesis
    using name_and_id_agree
            [where v = "PInt 4" and h = PNone and js = False and md' = "(None, None)", OF a c i]
          b c v t
    by simp
qed

section \<open>The facade: the outcome of a call\<close>


lemma sample_overlap_run:
  "map_option (\<lambda>r. (snd (fst r), snd r))
     (run (invoke sample_stub 7) 0
        [Submit 1 (Call_get_module ''3''), Submit 2 (Call_get_module ''2''), Work, Work,
         Deliver 2, Deliver 1] (init sample_world, []))
   = Some ([],
       [(2, Inr (RetObject (ModuleT (Module (ClientRef 0)
              (ModuleMsg \<lparr>location = ''3'', present = True, oid = 33, hostifs = [],
                           netifs = []\<rparr>))))),
        (1, Inl (TAIException (- 1) ''module 2 not present''))])"
  by (simp add: init_def put_def loop_def take_reply_def rebind_def invoke_def returning_def
                get_module_def log_def Let_def sample_defs)




section \<open>The facade: several callers\<close>

lemma length_in_order_replies [simp]:
  "length (in_order_replies exec self is w) = length is"
  by (induction "is" arbitrary: w) auto

lemma submissions_Cons: "submissions (a # as) = submissions [a] @ submissions as"
  by (cases a) auto

lemma pending_put [simp]: "pending (put i st) = pending st @ [i]"
  by (simp add: pending_def put_def)

lemma fire_step:
  assumes "fire exec self a (st0, bl0) = Some ((st1, bl1), d)"
    and "alive st0" and "None \<notin> set (in_q st0)" and "distinct bl0"
  shows "alive st1 \<and> None \<notin> set (in_q st1) \<and> distinct bl1
       \<and> map snd d @ out_q st1 @ in_order_replies exec self (pending st1 @ X) (inner st1)
           = out_q st0
               @ in_order_replies exec self (pending st0 @ map snd (submissions [a]) @ X) (inner st0)
       \<and> length d + length bl1 = length bl0 + length (submissions [a])"
proof (cases a)
  case (Submit t i)
  with assms show ?thesis
    by (auto simp: put_def pending_def split: if_splits)
next
  case Work
  with assms obtain i q where q: "in_q st0 = Some i # q"
    by (cases "in_q st0") (auto simp: loop_def split: option.splits)
  with Work assms show ?thesis
    by (auto simp: loop_def pending_def)
next
  case (Deliver t)
  with assms obtain r q where q: "out_q st0 = r # q"
    by (cases "out_q st0") (auto simp: take_reply_def split: if_splits)
  have "t \<in> set bl0"
    using Deliver assms(1) by (auto split: if_splits)
  then have "length (removeAll t bl0) + 1 = length bl0"
    using assms(4) by (simp add: distinct_remove1_removeAll [symmetric] length_remove1)
       (metis One_nat_def Suc_pred length_pos_if_in_set)
  with Deliver assms q show ?thesis
    by (auto simp: take_reply_def pending_def distinct_removeAll split: if_splits)
qed

lemma run_invariant:
  assumes "run exec self as (st0, bl0) = Some ((st, bl), ds)"
    and "alive st0" and "None \<notin> set (in_q st0)" and "distinct bl0"
  shows "map snd ds @ out_q st @ in_order_replies exec self (pending st) (inner st)
           = out_q st0
               @ in_order_replies exec self (pending st0 @ map snd (submissions as)) (inner st0)
       \<and> length ds + length bl = length bl0 + length (submissions as)"
  using assms
proof (induction as arbitrary: st0 bl0 ds)
  case Nil
  then show ?case by simp
next
  case (Cons a as)
  from Cons.prems(1) obtain st1 bl1 d ds' where
    f: "fire exec self a (st0, bl0) = Some ((st1, bl1), d)"
    and r: "run exec self as (st1, bl1) = Some ((st, bl), ds')"
    and ds: "ds = d @ ds'"
    by (auto split: option.splits prod.splits)
  note s = fire_step [OF f Cons.prems(2,3,4), of "map snd (submissions as)"]
  from s have ok: "alive st1" "None \<notin> set (in_q st1)" "distinct bl1"
    by simp_all
  note ih = Cons.IH [OF r ok]
  have "map snd ds @ out_q st @ in_order_replies exec self (pending st) (inner st)
          = map snd d @ out_q st1
              @ in_order_replies exec self (pending st1 @ map snd (submissions as)) (inner st1)"
    using ih ds by simp
  also have "\<dots> = out_q st0
      @ in_order_replies exec self
          (pending st0 @ map snd (submissions [a]) @ map snd (submissions as)) (inner st0)"
    using s by simp
  finally have 1: "map snd ds @ out_q st @ in_order_replies exec self (pending st) (inner st)
      = out_q st0
          @ in_order_replies exec self (pending st0 @ map snd (submissions (a # as))) (inner st0)"
    by (simp add: submissions_Cons [of a as])
  have 2: "length ds + length bl = length bl0 + length (submissions (a # as))"
    using ih s ds by (simp add: submissions_Cons [of a as])
  from 1 2 show ?case by simp
qed


lemma submissions_one_at_a_time [simp]: "submissions (one_at_a_time cs) = cs"
  by (induction cs) auto

lemma run_one_at_a_time:
  "in_q st = [] \<Longrightarrow> out_q st = [] \<Longrightarrow> alive st
     \<Longrightarrow> \<exists>st'. run exec self (one_at_a_time cs) (st, [])
                 = Some ((st', []),
                         zip (map fst cs) (in_order_replies exec self (map snd cs) (inner st)))"
proof (induction cs arbitrary: st)
  case Nil
  then show ?case by simp
next
  case (Cons c cs)
  obtain t i where c: "c = (t, i)" by (cases c)
  let ?st1 = "st\<lparr>in_q := [], inner := snd (exec i (inner st)), out_q := []\<rparr>"
  have "in_q ?st1 = []" "out_q ?st1 = []" "alive ?st1"
    using Cons.prems by simp_all
  from Cons.IH [OF this] obtain st' where
    "run exec self (one_at_a_time cs) (?st1, [])
       = Some ((st', []), zip (map fst cs)
                 (in_order_replies exec self (map snd cs) (snd (exec i (inner st)))))"
    by auto
  then show ?case
    using Cons.prems c by (simp add: put_def loop_def take_reply_def)
qed

lemma sample_in_order:
  "in_order_replies (invoke sample_stub 7) 0 [Call_get_module ''3'', Call_get_module ''2'']
     sample_world
   = [Inr (RetObject (ModuleT (Module (ClientRef 0)
              (ModuleMsg \<lparr>location = ''3'', present = True, oid = 33, hostifs = [],
                           netifs = []\<rparr>)))),
      Inl (TAIException (- 1) ''module 2 not present'')]"
  by (simp add: rebind_def invoke_def returning_def get_module_def log_def Let_def sample_defs)

text \<open>
  Claim C7, as stated, fails.  Threads 1 and 2 both submit before the worker has served
  either request; thread 2, which asked for the module at location 2 (a call that raises),
  takes the first reply, which is the module at location 3 that thread 1 asked for, and
  thread 1 is left with the error of thread 2's call.
\<close>

theorem caller_takes_another_callers_reply:
  "\<not> delivered_to_own_callers (invoke sample_stub 7) 0
        [Submit 1 (Call_get_module ''3''), Submit 2 (Call_get_module ''2''), Work, Work,
         Deliver 2, Deliver 1] sample_world
   \<and> map_option snd
       (run (invoke sample_stub 7) 0
          [Submit 1 (Call_get_module ''3''), Submit 2 (Call_get_module ''2''), Work, Work,
           Deliver 2, Deliver 1] (init sample_world, []))
     = Some [(2, Inr (RetObject (ModuleT (Module (ClientRef 0)
                (ModuleMsg \<lparr>location = ''3'', present = True, oid = 33, hostifs = [],
                             netifs = []\<rparr>))))),
             (1, Inl (TAIException (- 1) ''module 2 not present''))]
   \<and> fst (get_module sample_stub 7 ''2'' sample_world)
     = Inl (TAIException (- 1) ''module 2 not present'')"
proof -
  let ?as = "[Submit 1 (Call_get_module ''3''), Submit 2 (Call_get_module ''2''), Work, Work,
         Deliver 2, Deliver 1]"
  from sample_overlap_run obtain s where
    r: "run (invoke sample_stub 7) 0 ?as (init sample_world, [])
          = Some (s, [(2, Inr (RetObject (ModuleT (Module (ClientRef 0)
                (ModuleMsg \<lparr>location = ''3'', present = True, oid = 33, hostifs = [],
                             netifs = []\<rparr>))))),
             (1, Inl (TAIException (- 1) ''module 2 not present''))])"
    by (auto simp: map_option_case split: option.splits)
  have "\<not> delivered_to_own_callers (invoke sample_stub 7) 0 ?as sample_world"
    unfolding delivered_to_own_callers_def r by (simp add: sample_in_order)
  moreover have "fst (get_module sample_stub 7 ''2'' sample_world)
     = Inl (TAIException (- 1) ''module 2 not present'')"
    by (simp add: get_module_def Let_def sample_defs)
  ultimately show ?thesis
    unfolding r by simp
qed

text \<open>
  Claim C7, amended.  For every schedule of submissions, worker passes and deliveries on a
  new facade, the replies are produced one at a time in the order of submission, none lost,
  merged or reordered: the replies delivered so far, followed by the replies that wait in
  the outbound queue and by the replies still to be computed for the requests that wait in
  the inbound queue, are exactly the replies that the submitted calls get when carried out
  one after the other.  The threads still blocked are those whose reply has not been
  delivered, and when no thread is blocked the delivered replies are exactly the \<open>N\<close>
  replies to the \<open>N\<close> submissions, in that order.  Which thread takes which reply is not
  fixed by the queues: it is the submitting thread when calls do not overlap (each call is
  submitted, served and delivered before the next one is submitted).
\<close>

theorem replies_in_submission_order:
  assumes "run exec self as (init w, []) = Some ((st, blocked), ds)"
  shows "map snd ds @ out_q st @ in_order_replies exec self (pending st) (inner st)
           = in_order_replies exec self (map snd (submissions as)) w
       \<and> length ds + length blocked = length (submissions as)
       \<and> (blocked = [] \<longrightarrow> map snd ds = in_order_replies exec self (map snd (submissions as)) w)
       \<and> map_option snd (run exec self (one_at_a_time cs) (init w, []))
           = Some (zip (map fst cs) (in_order_replies exec self (map snd cs) w))
       \<and> delivered_to_own_callers exec self (one_at_a_time cs) w"
proof -
  have i: "alive (init w)" "None \<notin> set (in_q (init w))" "distinct []"
    "out_q (init w) = []" "pending (init w) = []" "inner (init w) = w" "in_q (init w) = []"
    by (simp_all add: init_def pending_def)
  from run_invariant [OF assms i(1,2,3)]
  have 1: "map snd ds @ out_q st @ in_order_replies exec self (pending st) (inner st)
             = in_order_replies exec self (map snd (submissions as)) w"
    and 2: "length ds + length blocked = length (submissions as)"
    by (simp_all add: i)
  have 3: "blocked = [] \<longrightarrow> map snd ds = in_order_replies exec self (map snd (submissions as)) w"
  proof
    assume b: "blocked = []"
    have "length (map snd ds @ out_q st @ in_order_replies exec self (pending st) (inner st))
            = length (submissions as)"
      using 1 by simp
    with 2 b have "out_q st = []" "pending st = []"
      by simp_all
    with 1 show "map snd ds = in_order_replies exec self (map snd (submissions as)) w"
      by simp
  qed
  from run_one_at_a_time [OF i(7) i(4) i(1), of exec self cs] obtain st' where
    r: "run exec self (one_at_a_time cs) (init w, [])
          = Some ((st', []), zip (map fst cs) (in_order_replies exec self (map snd cs) w))"
    by (auto simp: i)
  then have 4: "map_option snd (run exec self (one_at_a_time cs) (init w, []))
                  = Some (zip (map fst cs) (in_order_replies exec self (map snd cs) w))"
    by simp
  have 5: "delivered_to_own_callers exec self (one_at_a_time cs) w"
    by (simp add: delivered_to_own_callers_def r)
  from 1 2 3 4 5 show ?thesis by blast
qed

theorem replies_in_submission_order_witness:
  "map_option (\<lambda>r. map snd (snd r))
     (run (invoke sample_stub 7) 0
        [Submit 1 (Call_get_module ''3''), Submit 2 (Call_get_module ''2''), Work, Work,
         Deliver 2, Deliver 1] (init sample_world, []))
   = Some (in_order_replies (invoke sample_stub 7) 0
             [Call_get_module ''3'', Call_get_module ''2''] sample_world)"
proof -
  let ?as = "[Submit 1 (Call_get_module ''3''), Submit 2 (Call_get_module ''2''), Work, Work,
         Deliver 2, Deliver 1]"
  from sample_overlap_run obtain st ds where
    r: "run (invoke sample_stub 7) 0 ?as (init sample_world, []) = Some ((st, []), ds)"
    by (auto simp: map_option_case split: option.splits)
  from replies_in_submission_order [OF r, of "[]"]
  have "map snd ds = in_order_replies (invoke sample_stub 7) 0
                       [Call_get_module ''3'', Call_get_module ''2''] sample_world"
    by simp
  then show ?thesis
    unfolding r by simp
qed

section \<open>monitor\<close>

lemma stream_opens_append [simp]: "stream_opens (xs @ ys) = stream_opens xs + stream_opens ys"
  by (simp add: stream_opens_def)

text \<open>
  Claim C1, as stated, fails.  On the sample service the attribute \<^verbatim>\<open>index\<close> has the usage
  \<^verbatim>\<open><normal>\<close>, which is not \<^verbatim>\<open>notification\<close>: \<^verbatim>\<open>monitor\<close> raises the usage error, but only after
  it has opened the \<^verbatim>\<open>Monitor\<close> stream and, inside it, the stream of the metadata lookup
  (two stream-open calls, not zero).  And the attribute \<^verbatim>\<open>notify\<close> has the usage
  \<^verbatim>\<open><notification>\<close>, which is not the string \<^verbatim>\<open>notification\<close> either: \<^verbatim>\<open>monitor\<close> does not fail
  on it, since the usage it compares with is \<^verbatim>\<open><notification>\<close>.
\<close>

theorem monitor_opens_streams_first:
  "usage (fst (sample_metadata
       (GetAttributeMetadataRequest MODULE 33 [] 0 ''index'' set_default_serialize_option)))
     \<noteq> ''notification''
   \<and> monitor sample_stub 1 (ModuleT sample_module) (AttrStr ''index'') quiet_callback False
       sample_world
     = (Some (PyException ''the type of attribute index is not notification''),
        sample_world\<lparr>trace :=
          [Open MonitorRPC, Open GetAttributeMetadataRPC,
           Send (GetAttributeMetadataRequest MODULE 33 [] 0 ''index''
                   (SerializeOption True True False)),
           Recv GetAttributeMetadataRPC, RecvTrailing GetAttributeMetadataRPC,
           Close GetAttributeMetadataRPC, Close MonitorRPC]\<rparr>)
   \<and> stream_opens (trace (snd (monitor sample_stub 1 (ModuleT sample_module) (AttrStr ''index'')
                                  quiet_callback False sample_world))) = 2
   \<and> usage (fst (sample_metadata
       (GetAttributeMetadataRequest MODULE 33 [] 0 ''notify'' set_default_serialize_option)))
     \<noteq> ''notification''
   \<and> fst (monitor sample_stub 1 (ModuleT sample_module) (AttrStr ''notify'') quiet_callback False
            sample_world) = None"
  by (simp add: monitor_def get_attribute_metadata_def metadata_request_def check_metadata_def
                log_def Let_def stream_opens_def set_default_serialize_option_def sample_defs)

text \<open>
  Claim C1, amended.  For every object, every attribute reference given by number or by
  name, and every callback: if the metadata lookup succeeds and the usage of the descriptor
  is not exactly \<^verbatim>\<open><notification>\<close>, then \<^verbatim>\<open>monitor\<close> raises the usage error.  By then it
  has opened two streams, the \<^verbatim>\<open>Monitor\<close> stream and the stream of the metadata lookup, and
  has closed both; it has sent nothing on the \<^verbatim>\<open>Monitor\<close> stream, received nothing from it
  and called no callback.
\<close>

theorem monitor_usage_error:
  assumes "metadata_request (object_type_of obj) attr (oid_of obj) (PStr []) = Inr req"
    and "GetAttributeMetadata stub req (remote w) = ((m, md), r)"
    and "check_metadata md = Inr ()"
    and "usage m \<noteq> ''<notification>''"
  shows "monitor stub k obj attr callback js w
           = (Some (PyException (''the type of attribute '' @ format_attr attr
                                   @ '' is not notification'')),
              w\<lparr>remote := r,
                 trace := trace w @ [Open MonitorRPC, Open GetAttributeMetadataRPC, Send req,
                                     Recv GetAttributeMetadataRPC,
                                     RecvTrailing GetAttributeMetadataRPC,
                                     Close GetAttributeMetadataRPC, Close MonitorRPC]\<rparr>)
       \<and> stream_opens (trace (snd (monitor stub k obj attr callback js w)))
           = stream_opens (trace w) + 2"
  using assms
  by (simp add: monitor_def get_attribute_metadata_def log_def Let_def stream_opens_def)

theorem monitor_usage_error_witness:
  "monitor sample_stub 3 (ModuleT sample_module) (AttrInt 2) quiet_callback True sample_world
     = (Some (PyException ''the type of attribute 2 is not notification''),
        sample_world\<lparr>trace :=
          [Open MonitorRPC, Open GetAttributeMetadataRPC,
           Send (GetAttributeMetadataRequest MODULE 33 [] 2 [] (SerializeOption True True False)),
           Recv GetAttributeMetadataRPC, RecvTrailing GetAttributeMetadataRPC,
           Close GetAttributeMetadataRPC, Close MonitorRPC]\<rparr>)"
proof -
  let ?m = "\<lparr>attr_id = 2, name = ''index'', usage = ''<normal>''\<rparr>"
  have a: "metadata_request (object_type_of (ModuleT sample_module)) (AttrInt 2)
             (oid_of (ModuleT sample_module)) (PStr [])
           = Inr (GetAttributeMetadataRequest MODULE 33 [] 2 [] (SerializeOption True True False))"
    by (simp add: metadata_request_def set_default_serialize_option_def sample_defs)
  have b: "GetAttributeMetadata sample_stub
             (GetAttributeMetadataRequest MODULE 33 [] 2 [] (SerializeOption True True False))
             (remote sample_world) = ((?m, (None, None)), 0)"
    by (simp add: sample_defs)
  have c: "check_metadata (None, None) = Inr ()"
    by (simp add: check_metadata_def)
  have u: "usage ?m \<noteq> ''<notification>''"
    by simp
  show ?thesis
    using monitor_usage_error [OF a b c u, of 3 quiet_callback True]
    by (simp add: sample_world_def str_nat.simps)
qed

section \<open>list through the facade\<close>

text \<open>
  Claim C2 states what the code should do and does not: the facade assigns the \<^verbatim>\<open>client\<close>
  field only of a reply that is itself a \<^verbatim>\<open>TAIObject\<close>.  The reply of \<^verbatim>\<open>list\<close> is a
  dictionary, so the \<^verbatim>\<open>Module\<close> objects in it keep the worker's private \<^verbatim>\<open>AsyncClient\<close>
  (here number 7) as their owner, where \<^verbatim>\<open>get_module\<close> on the same facade (number 0)
  returns a module owned by the facade.
\<close>

theorem facade_list_keeps_internal_owner:
  "map_option fst (getattr_call (invoke sample_stub 7) 0 Call_list (init sample_world))
     = Some (Inr (RetModules
         [(''1'', Module (AsyncClientRef 7)
                    (ModuleMsg \<lparr>location = ''1'', present = True, oid = 0, hostifs = [],
                                 netifs = []\<rparr>)),
          (''2'', Module (AsyncClientRef 7)
                    (ModuleMsg \<lparr>location = ''2'', present = False, oid = 0, hostifs = [],
                                 netifs = []\<rparr>)),
          (''3'', Module (AsyncClientRef 7)
                    (ModuleMsg \<lparr>location = ''3'', present = True, oid = 33, hostifs = [],
                                 netifs = []\<rparr>))]))
   \<and> map_option fst
       (getattr_call (invoke sample_stub 7) 0 (Call_get_module ''3'') (init sample_world))
     = Some (Inr (RetObject (ModuleT (Module (ClientRef 0)
                    (ModuleMsg \<lparr>location = ''3'', present = True, oid = 33, hostifs = [],
                                 netifs = []\<rparr>)))))"
  by (simp add: getattr_call_def loop_def put_def take_reply_def init_def rebind_def invoke_def
                returning_def list_def get_module_def log_def Let_def sample_defs)

section \<open>get\_multiple with metadata\<close>

text \<open>
  Claim C3 states what the code should do and does not: the second loop of
  \<^verbatim>\<open>get_multiple\<close> pairs every value with the variable \<^verbatim>\<open>meta\<close>, which holds the descriptor
  of the last attribute of the batch.  Asked for the attributes 1 and 2 with metadata, it
  returns the value of attribute 1 beside the descriptor of attribute 2, although the
  lookup for attribute 1 had returned the descriptor of \<^verbatim>\<open>location\<close>.
\<close>

theorem get_multiple_pairs_last_descriptor:
  "fst (get_multiple sample_stub MODULE 33 [Plain (AttrInt 1), Plain (AttrInt 2)] True False
          sample_world)
     = Inr [(''3'', Some \<lparr>attr_id = 2, name = ''index'', usage = ''<normal>''\<rparr>),
            (''0'', Some \<lparr>attr_id = 2, name = ''index'', usage = ''<normal>''\<rparr>)]
   \<and> fst (get_attribute_metadata sample_stub MODULE (AttrInt 1) 33 (PStr []) sample_world)
     = Inr \<lparr>attr_id = 1, name = ''location'', usage = ''<normal>''\<rparr>"
  by (simp add: call_defs Let_def sample_defs)

end
